theory Spec2Isabelle
  imports Complex_Main "HOL-Library.Sublist" "HOL-Library.Multiset" "HOL-Library.Log_Nat"
begin

section \<open>Similarity resolution engine of the Corriente Sound server\<close>

text \<open>
  The development embeds the server version that starts at line 583 of
  \<^verbatim>\<open>src/unnamed/part_000\<close>: the token cache \<^verbatim>\<open>getSpotifyToken\<close>, the feature estimator
  \<^verbatim>\<open>generateIntelligentFeatures\<close>, the scoring function \<^verbatim>\<open>calculateSimilarityScore\<close>,
  \<^verbatim>\<open>removeDuplicateTracks\<close>, the strategy loop \<^verbatim>\<open>findSimilarTracksViaSpotify\<close> and the two
  routes that call it.

  Numbers. The similarity score is computed as the code computes it, in binary64:
  every constant and every arithmetic result is rounded to the nearest double. The
  estimator is modelled on exact rationals: what is stated about it are the ranges
  that its final clamps and its rounding to three decimals enforce, and an exact 0.
  \<^verbatim>\<open>NaN\<close> (a missing numeric field, or \<^verbatim>\<open>0/0\<close>) and \<^verbatim>\<open>Infinity\<close> (a division by zero)
  are written out where they can arise.

  Strings. \<^verbatim>\<open>String.prototype.toLowerCase\<close> follows the Unicode case tables, which are
  no part of the repository: every function that calls it takes it as its first
  parameter, named \<open>toLowerCase\<close>, and what is proved holds for every such function.
\<close>

subsection \<open>Data model\<close>

text \<open>A number as JavaScript has it here: a value, or \<^verbatim>\<open>NaN\<close>.\<close>

datatype jsnum = Num rat | NaN

text \<open>
  A track object as the catalog delivers it. \<^verbatim>\<open>name\<close>, \<^verbatim>\<open>id\<close> and the first
  artist's name are always present. The other fields are optional here: the code
  reads them in ways that tolerate their absence or turn it into \<^verbatim>\<open>NaN\<close>, except
  the album, whose absence the estimator tolerates and the strategy generation does
  not.
\<close>

record album =
  album_name :: string
  release_date :: "string option"

record track =
  track_id :: string
  name :: string
  artist :: string
  track_album :: "album option"
  popularity :: "int option"
  duration_ms :: "int option"
  explicit :: "bool option"
  preview_url :: "string option"

record features =
  acousticness :: rat
  danceability :: rat
  energy :: rat
  instrumentalness :: rat
  liveness :: rat
  loudness :: rat
  speechiness :: rat
  tempo :: rat
  valence :: rat

subsection \<open>Strings\<close>

text \<open>
  What \<^verbatim>\<open>toLowerCase\<close> does to a string of ASCII characters; the sample inputs below
  are such strings.
\<close>

definition lower_char :: "char \<Rightarrow> char" where
  "lower_char c =
     (case map_of (zip ''ABCDEFGHIJKLMNOPQRSTUVWXYZ'' ''abcdefghijklmnopqrstuvwxyz'') c of
        Some l \<Rightarrow> l
      | None \<Rightarrow> c)"

definition asciiLowerCase :: "string \<Rightarrow> string" where
  "asciiLowerCase s = map lower_char s"

text \<open>\<^verbatim>\<open>s.includes(w)\<close>: \<open>w\<close> occurs in \<open>s\<close> as a contiguous substring.\<close>

fun js_includes :: "string \<Rightarrow> string \<Rightarrow> bool" where
  "js_includes [] w = (w = [])"
| "js_includes (c # cs) w = (prefix w (c # cs) \<or> js_includes cs w)"

text \<open>\<^verbatim>\<open>words.some(word => s.includes(word))\<close>\<close>

fun some_includes :: "string list \<Rightarrow> string \<Rightarrow> bool" where
  "some_includes [] s = False"
| "some_includes (w # ws) s = (js_includes s w \<or> some_includes ws s)"

subsection \<open>Binary64 arithmetic\<close>

text \<open>
  A double is a rational \<open>m * 2^k\<close> with an integer \<open>m\<close> of at most 53 bits. An
  operation of the code returns the exact result rounded to the nearest double, ties
  going to the even \<open>m\<close>. \<open>exponent x\<close> is the \<open>e\<close> with \<open>2^e \<le> x < 2^(e+1)\<close>, found
  from the bit lengths of numerator and denominator. The exponent is not bounded
  here: the integers that the scoring function reads are taken to be of at most 53
  bits, and then no operation of it leaves the range of the normal doubles.
\<close>

definition roundHalfEven :: "rat \<Rightarrow> int" where
  "roundHalfEven y =
     (let f = \<lfloor>y\<rfloor>; r = y - of_int f
      in if r < 1/2 then f else if 1/2 < r then f + 1 else if even f then f else f + 1)"

definition exponent :: "rat \<Rightarrow> int" where
  "exponent x =
     (let (p, q) = quotient_of x; k = bitlen p - bitlen q
      in if 2 powi k \<le> x then k else k - 1)"

definition roundPositive :: "rat \<Rightarrow> rat" where
  "roundPositive x =
     of_int (roundHalfEven (x * 2 powi (52 - exponent x))) * 2 powi (exponent x - 52)"

definition binary64 :: "rat \<Rightarrow> rat" where
  "binary64 x =
     (if x = 0 then 0 else if 0 < x then roundPositive x else - roundPositive (- x))"

text \<open>An integer field of a track, read as a number.\<close>

definition toNumber :: "int \<Rightarrow> rat" where
  "toNumber n = binary64 (of_int n)"

text \<open>\<^verbatim>\<open>Number.MAX_SAFE_INTEGER\<close>: the integers up to it are doubles.\<close>

definition safeInteger :: "int \<Rightarrow> bool" where
  "safeInteger n = (\<bar>n\<bar> \<le> 9007199254740991)"

subsection \<open>The feature estimator\<close>

definition energeticWords :: "string list" where
  "energeticWords = [''dance'', ''party'', ''pump'', ''wild'', ''fire'', ''electric'',
     ''power'', ''energy'', ''rock'', ''metal'']"

definition chillWords :: "string list" where
  "chillWords = [''chill'', ''relax'', ''calm'', ''slow'', ''soft'', ''gentle'',
     ''peace'', ''quiet'', ''ambient'']"

definition sadWords :: "string list" where
  "sadWords = [''sad'', ''cry'', ''tears'', ''lonely'', ''hurt'', ''pain'', ''goodbye'',
     ''miss'', ''sorry'']"

definition happyWords :: "string list" where
  "happyWords = [''happy'', ''joy'', ''love'', ''smile'', ''sunshine'', ''bright'',
     ''celebration'', ''party'']"

definition romanticWords :: "string list" where
  "romanticWords = [''love'', ''heart'', ''romance'', ''kiss'', ''together'', ''forever'',
     ''beautiful'', ''baby'']"

definition baseFeatures :: features where
  "baseFeatures = \<lparr> acousticness = 3/10, danceability = 1/2, energy = 1/2,
     instrumentalness = 1/10, liveness = 1/10, loudness = -8, speechiness = 1/20,
     tempo = 120, valence = 1/2 \<rparr>"

text \<open>
  \<^verbatim>\<open>Math.random()\<close> is a source of draws \<open>random 0, random 1, ...\<close>; every function
  that draws returns the number of draws it has made so far.

  Each \<^verbatim>\<open>if (...) { ... }\<close> block of lines 678 to 722 is one adjustment of the feature
  object, applied when its condition holds.
\<close>

definition applyIf :: "bool \<Rightarrow> (features \<Rightarrow> features) \<Rightarrow> features \<Rightarrow> features" where
  "applyIf c g f = (if c then g f else f)"

definition energeticAdjust :: "rat \<Rightarrow> features \<Rightarrow> features" where
  "energeticAdjust r f =
     f\<lparr> energy := min (9/10) (energy f + 3/10),
        danceability := min (9/10) (danceability f + 2/10),
        tempo := max (tempo f) (130 + r * 40) \<rparr>"

definition chillAdjust :: "features \<Rightarrow> features" where
  "chillAdjust f =
     f\<lparr> energy := max (1/10) (energy f - 3/10),
        acousticness := min (8/10) (acousticness f + 3/10),
        tempo := max 70 (tempo f - 30) \<rparr>"

definition sadAdjust :: "features \<Rightarrow> features" where
  "sadAdjust f =
     f\<lparr> valence := max (1/10) (valence f - 4/10),
        energy := max (2/10) (energy f - 2/10) \<rparr>"

definition happyAdjust :: "features \<Rightarrow> features" where
  "happyAdjust f =
     f\<lparr> valence := min (9/10) (valence f + 3/10),
        energy := min (8/10) (energy f + 1/10) \<rparr>"

definition romanticAdjust :: "features \<Rightarrow> features" where
  "romanticAdjust f =
     f\<lparr> valence := min (8/10) (valence f + 2/10),
        acousticness := min (7/10) (acousticness f + 2/10) \<rparr>"

definition artistAdjust :: "features \<Rightarrow> features" where
  "artistAdjust f =
     f\<lparr> danceability := min (9/10) (danceability f + 3/10),
        energy := min (9/10) (energy f + 2/10),
        tempo := max (tempo f) 128 \<rparr>"

definition durationAdjust :: "features \<Rightarrow> features" where
  "durationAdjust f =
     f\<lparr> acousticness := min (7/10) (acousticness f + 2/10),
        instrumentalness := min (4/10) (instrumentalness f + 1/10) \<rparr>"

definition popularityAdjust :: "features \<Rightarrow> features" where
  "popularityAdjust f =
     f\<lparr> danceability := min (8/10) (danceability f + 1/10),
        energy := min (8/10) (energy f + 1/10) \<rparr>"

text \<open>
  The first part of \<^verbatim>\<open>generateIntelligentFeatures\<close> (lines 650 to 722): the defaults
  for missing fields (\<^verbatim>\<open>x || d\<close> takes the default for a missing field and for 0),
  then the adjustments in the order of the source. Only the energetic block draws a
  random number, so the number of draws made is 1 or 0.
\<close>

definition adjustFeatures ::
  "(string \<Rightarrow> string) \<Rightarrow> (nat \<Rightarrow> rat) \<Rightarrow> track \<Rightarrow> features \<times> nat" where
  "adjustFeatures toLowerCase random trackData =
     (let trackName = toLowerCase (name trackData);
          artistName = toLowerCase (artist trackData);
          popularity = (case popularity trackData of
                          None \<Rightarrow> 50 | Some p \<Rightarrow> if p = 0 then 50 else p);
          duration = (case duration_ms trackData of
                          None \<Rightarrow> 180000 | Some d \<Rightarrow> if d = 0 then 180000 else d);
          energetic = some_includes energeticWords trackName
      in ((applyIf (popularity > 70) popularityAdjust \<circ>
           applyIf (duration > 300000) durationAdjust \<circ>
           applyIf (js_includes artistName ''dj'' \<or> js_includes artistName ''edm'') artistAdjust \<circ>
           applyIf (some_includes romanticWords trackName) romanticAdjust \<circ>
           applyIf (some_includes happyWords trackName) happyAdjust \<circ>
           applyIf (some_includes sadWords trackName) sadAdjust \<circ>
           applyIf (some_includes chillWords trackName) chillAdjust \<circ>
           applyIf energetic (energeticAdjust (random 0))) baseFeatures,
          if energetic then 1 else 0))"

text \<open>
  The jitter loop (lines 725 to 733) visits the keys in the order of the object literal
  and draws once per key: every key but \<^verbatim>\<open>tempo\<close> is moved by at most 0.05 and
  clamped to [0,1], \<^verbatim>\<open>tempo\<close> is moved by at most 5 and clamped to [60,200].
\<close>

definition jitter01 :: "rat \<Rightarrow> rat \<Rightarrow> rat" where
  "jitter01 r v = (let randomFactor = (r - 1/2) * (1/10) in max 0 (min 1 (v + randomFactor)))"

definition jitterTempo :: "rat \<Rightarrow> rat \<Rightarrow> rat" where
  "jitterTempo r v = max 60 (min 200 (v + (r - 1/2) * 10))"

definition addRandomness :: "(nat \<Rightarrow> rat) \<Rightarrow> nat \<Rightarrow> features \<Rightarrow> features" where
  "addRandomness random n f =
     \<lparr> acousticness = jitter01 (random n) (acousticness f),
       danceability = jitter01 (random (n + 1)) (danceability f),
       energy = jitter01 (random (n + 2)) (energy f),
       instrumentalness = jitter01 (random (n + 3)) (instrumentalness f),
       liveness = jitter01 (random (n + 4)) (liveness f),
       loudness = jitter01 (random (n + 5)) (loudness f),
       speechiness = jitter01 (random (n + 6)) (speechiness f),
       tempo = jitterTempo (random (n + 7)) (tempo f),
       valence = jitter01 (random (n + 8)) (valence f) \<rparr>"

text \<open>\<^verbatim>\<open>Math.round(v * 1000) / 1000\<close>; \<^verbatim>\<open>Math.round\<close> rounds halves upwards.\<close>

definition round3 :: "rat \<Rightarrow> rat" where
  "round3 v = of_int \<lfloor>v * 1000 + 1/2\<rfloor> / 1000"

definition roundFeatures :: "features \<Rightarrow> features" where
  "roundFeatures f =
     \<lparr> acousticness = round3 (acousticness f),
       danceability = round3 (danceability f),
       energy = round3 (energy f),
       instrumentalness = round3 (instrumentalness f),
       liveness = round3 (liveness f),
       loudness = round3 (loudness f),
       speechiness = round3 (speechiness f),
       tempo = round3 (tempo f),
       valence = round3 (valence f) \<rparr>"

text \<open>
  The whole estimator. The three \<^verbatim>\<open>_source\<close>, \<^verbatim>\<open>_confidence\<close> and \<^verbatim>\<open>_note\<close> tags of
  the returned object are constants and are dropped again by \<^verbatim>\<open>getIntelligentFeatures\<close>,
  so the result is the nine numbers; the second component is the number of draws made.
\<close>

definition generateIntelligentFeatures ::
  "(string \<Rightarrow> string) \<Rightarrow> (nat \<Rightarrow> rat) \<Rightarrow> track \<Rightarrow> features \<times> nat" where
  "generateIntelligentFeatures toLowerCase random trackData =
     (let (f, n) = adjustFeatures toLowerCase random trackData
      in (roundFeatures (addRandomness random n f), n + 9))"

definition getIntelligentFeatures ::
  "(string \<Rightarrow> string) \<Rightarrow> (nat \<Rightarrow> rat) \<Rightarrow> track \<Rightarrow> features" where
  "getIntelligentFeatures toLowerCase random trackData =
     fst (generateIntelligentFeatures toLowerCase random trackData)"

text \<open>The ranges the estimator promises for its result.\<close>

definition in_unit :: "rat \<Rightarrow> bool" where
  "in_unit v = (0 \<le> v \<and> v \<le> 1)"

definition features_in_range :: "features \<Rightarrow> bool" where
  "features_in_range f =
     (in_unit (acousticness f) \<and> in_unit (danceability f) \<and> in_unit (energy f) \<and>
      in_unit (instrumentalness f) \<and> in_unit (liveness f) \<and> in_unit (speechiness f) \<and>
      in_unit (valence f) \<and> 60 \<le> tempo f \<and> tempo f \<le> 200)"

subsection \<open>Search strategies\<close>

definition getGenreFromFeatures :: "features \<Rightarrow> string" where
  "getGenreFromFeatures f =
     (if energy f > 8/10 \<and> danceability f > 7/10 then ''electronic dance''
      else if energy f > 7/10 \<and> tempo f > 140 then ''rock''
      else if acousticness f > 6/10 then ''folk''
      else if danceability f > 7/10 then ''pop''
      else if valence f < 3/10 then ''indie''
      else if energy f < 4/10 then ''ambient''
      else ''pop'')"

definition getFeatureKeywords :: "features \<Rightarrow> string list" where
  "getFeatureKeywords f =
     (let keywords =
        (if energy f > 7/10 then [''energetic'', ''upbeat'', ''powerful''] else []) @
        (if energy f < 3/10 then [''calm'', ''mellow'', ''peaceful''] else []) @
        (if danceability f > 7/10 then [''danceable'', ''groovy'', ''rhythm''] else []) @
        (if danceability f < 3/10 then [''contemplative'', ''thoughtful''] else []) @
        (if valence f > 7/10 then [''happy'', ''joyful'', ''cheerful''] else []) @
        (if valence f < 3/10 then [''melancholy'', ''emotional'', ''introspective''] else []) @
        (if acousticness f > 6/10 then [''acoustic'', ''unplugged'', ''intimate''] else []) @
        (if acousticness f < 2/10 then [''electric'', ''produced'', ''synthetic''] else []) @
        (if tempo f > 140 then [''fast'', ''driving''] else []) @
        (if tempo f < 80 then [''slow'', ''ballad''] else [])
      in if keywords \<noteq> [] then keywords else [''similar'', ''like''])"

text \<open>\<^verbatim>\<open>words.join(sep)\<close>\<close>

fun join :: "string \<Rightarrow> string list \<Rightarrow> string" where
  "join sep [] = []"
| "join sep [w] = w"
| "join sep (w # v # ws) = w @ sep @ join sep (v # ws)"

text \<open>A string between double quotes, as the query templates write it.\<close>

definition quoted :: "string \<Rightarrow> string" where
  "quoted s = [CHR 0x22] @ s @ [CHR 0x22]"

text \<open>
  The release year is the text before the first \<^verbatim>\<open>-\<close> of the release date, and the
  decade query computes with it as a number. The conversion is modelled for strings of
  decimal digits, which is what the catalog's dates start with; any other text gives
  \<^verbatim>\<open>NaN\<close>, which the template prints as such.
\<close>

definition digit_of :: "char \<Rightarrow> nat option" where
  "digit_of c = map_of (zip ''0123456789'' [0, 1, 2, 3, 4, 5, 6, 7, 8, 9]) c"

fun parseDigits :: "nat \<Rightarrow> string \<Rightarrow> nat option" where
  "parseDigits acc [] = Some acc"
| "parseDigits acc (c # cs) =
     (case digit_of c of None \<Rightarrow> None | Some d \<Rightarrow> parseDigits (10 * acc + d) cs)"

fun showNat :: "nat \<Rightarrow> string" where
  "showNat n =
     (if n < 10 then [''0123456789'' ! n]
      else showNat (n div 10) @ [''0123456789'' ! (n mod 10)])"

declare showNat.simps [simp del]

definition decadeRange :: "string \<Rightarrow> string" where
  "decadeRange releaseYear =
     (case parseDigits 0 releaseYear of
        None \<Rightarrow> ''NaN-NaN''
      | Some y \<Rightarrow> showNat (y div 10 * 10) @ ''-'' @ showNat (y div 10 * 10 + 9))"

record strategy =
  query :: string
  description :: string

text \<open>
  The strategy list of \<^verbatim>\<open>findSimilarTracksViaSpotify\<close> (lines 842 to 878). The decade
  strategy has a \<^verbatim>\<open>null\<close> query when the release date is missing or empty or starts
  with \<^verbatim>\<open>-\<close>; the final \<^verbatim>\<open>filter\<close> drops it. The four other queries are never empty.
\<close>

definition searchStrategies :: "track \<Rightarrow> album \<Rightarrow> features \<Rightarrow> strategy list" where
  "searchStrategies originalTrack alb audioFeatures =
     (let artistName = artist originalTrack;
          trackName = name originalTrack;
          albumName = album_name alb;
          releaseYear = (case release_date alb of
                           None \<Rightarrow> None
                         | Some d \<Rightarrow> if d = [] then None
                                     else Some (takeWhile (\<lambda>c. c \<noteq> CHR ''-'') d))
      in [\<lparr> query = ''genre:'' @ quoted (getGenreFromFeatures audioFeatures) @
                     '' NOT artist:'' @ quoted artistName,
            description = ''Similar genre, different artist'' \<rparr>,
          \<lparr> query = ''artist:'' @ quoted artistName @ '' NOT track:'' @ quoted trackName,
            description = ''Same artist, different song'' \<rparr>,
          \<lparr> query = join '' OR '' (getFeatureKeywords audioFeatures) @
                     '' NOT artist:'' @ quoted artistName,
            description = ''Feature-based keywords'' \<rparr>] @
         (case releaseYear of
            None \<Rightarrow> []
          | Some y \<Rightarrow> if y = [] then []
                      else [\<lparr> query = ''year:'' @ decadeRange y @
                                       '' NOT artist:'' @ quoted artistName,
                              description = ''Same decade'' \<rparr>]) @
         [\<lparr> query = ''album:'' @ quoted albumName @ '' NOT track:'' @ quoted trackName,
            description = ''Same album'' \<rparr>])"

subsection \<open>Scoring\<close>

text \<open>
  \<^verbatim>\<open>calculateSimilarityScore\<close> (lines 802 to 825), operation by operation; its first
  parameter \<^verbatim>\<open>targetFeatures\<close> is not used by the source. A missing popularity or
  duration makes the difference \<^verbatim>\<open>NaN\<close>, and so the score. With a seed duration of 0 the
  quotient is \<^verbatim>\<open>0/0 = NaN\<close> when the difference is 0 too, and \<^verbatim>\<open>Infinity\<close> otherwise,
  which \<^verbatim>\<open>Math.min\<close> turns into 0.5. \<^verbatim>\<open>preview_url\<close> counts when it is a non-empty string.
\<close>

definition hasPreview :: "'a track_scheme \<Rightarrow> bool" where
  "hasPreview t = (preview_url t \<noteq> None \<and> preview_url t \<noteq> Some [])"

text \<open>\<^verbatim>\<open>popularityDiff * 0.1\<close>\<close>

definition popularityPenalty :: "int option \<Rightarrow> int option \<Rightarrow> jsnum" where
  "popularityPenalty cand orig =
     (case (cand, orig) of
        (Some c, Some p) \<Rightarrow>
          (let popularityDiff = binary64 (\<bar>binary64 (toNumber c - toNumber p)\<bar> / 100)
           in Num (binary64 (popularityDiff * binary64 (1/10))))
      | _ \<Rightarrow> NaN)"

text \<open>\<^verbatim>\<open>Math.min(durationDiff, 0.5) * 0.1\<close>\<close>

definition durationPenalty :: "int option \<Rightarrow> int option \<Rightarrow> jsnum" where
  "durationPenalty cand orig =
     (case (cand, orig) of
        (Some c, Some d) \<Rightarrow>
          (let difference = \<bar>binary64 (toNumber c - toNumber d)\<bar>
           in if toNumber d = 0
              then (if difference = 0 then NaN else Num (binary64 (1/2 * binary64 (1/10))))
              else (let durationDiff = binary64 (difference / toNumber d)
                    in Num (binary64 (min durationDiff (1/2) * binary64 (1/10)))))
      | _ \<Rightarrow> NaN)"

definition calculateSimilarityScore ::
  "(string \<Rightarrow> string) \<Rightarrow> features \<Rightarrow> track \<Rightarrow> track \<Rightarrow> jsnum" where
  "calculateSimilarityScore toLowerCase targetFeatures candidateTrack originalTrack =
     (let score = 1;
          score = (if toLowerCase (artist candidateTrack) = toLowerCase (artist originalTrack)
                   then binary64 (score - binary64 (3/10)) else score)
      in case (popularityPenalty (popularity candidateTrack) (popularity originalTrack),
               durationPenalty (duration_ms candidateTrack) (duration_ms originalTrack)) of
           (Num p, Num d) \<Rightarrow>
             (let score = binary64 (score - p);
                  score = binary64 (score - d);
                  score = (if hasPreview candidateTrack
                           then binary64 (score + binary64 (1/10)) else score);
                  score = (if explicit originalTrack = explicit candidateTrack
                           then binary64 (score + binary64 (1/20)) else score)
              in Num (max 0 score))
         | _ \<Rightarrow> NaN)"

text \<open>
  The formula as the specification words it, on the values it names and in the order
  in which it names them, in the same arithmetic: the popularity difference is capped
  at 1 there.
\<close>

definition specified_score :: "bool \<Rightarrow> int \<Rightarrow> int \<Rightarrow> int \<Rightarrow> int \<Rightarrow> bool \<Rightarrow> bool \<Rightarrow> rat" where
  "specified_score same_artist cand_popularity seed_popularity cand_duration seed_duration
       playable explicit_equal =
     (let popularity_diff =
            \<bar>binary64 (toNumber cand_popularity - toNumber seed_popularity)\<bar>;
          duration_diff = \<bar>binary64 (toNumber cand_duration - toNumber seed_duration)\<bar>;
          s = 1;
          s = (if same_artist then binary64 (s - binary64 (3/10)) else s);
          s = binary64 (s - binary64 (min (binary64 (popularity_diff / 100)) 1 * binary64 (1/10)));
          s = binary64 (s - binary64 (min (binary64 (duration_diff / toNumber seed_duration)) (1/2)
                                       * binary64 (1/10)));
          s = (if playable then binary64 (s + binary64 (1/10)) else s);
          s = (if explicit_equal then binary64 (s + binary64 (1/20)) else s)
      in max 0 s)"

text \<open>The double that \<^verbatim>\<open>1.0 + 0.1 + 0.05\<close> evaluates to, 1.1500000000000001 in print.\<close>

definition maxScore :: rat where
  "maxScore = 5179139571476071 / 4503599627370496"

subsection \<open>Candidates, deduplication and sorting\<close>

text \<open>A catalog hit with the two fields the strategy loop writes into it.\<close>

record candidate = track +
  strategy_label :: string
  similarity :: jsnum

definition annotate :: "string \<Rightarrow> jsnum \<Rightarrow> track \<Rightarrow> candidate" where
  "annotate label score t =
     \<lparr> track_id = track_id t, name = name t, artist = artist t, track_album = track_album t,
       popularity = popularity t, duration_ms = duration_ms t, explicit = explicit t,
       preview_url = preview_url t, strategy_label = label, similarity = score \<rparr>"

text \<open>The key of \<^verbatim>\<open>removeDuplicateTracks\<close>: one string, joined by \<^verbatim>\<open>-\<close>.\<close>

definition dedupKey :: "(string \<Rightarrow> string) \<Rightarrow> 'a track_scheme \<Rightarrow> string" where
  "dedupKey toLowerCase t = toLowerCase (name t) @ ''-'' @ toLowerCase (artist t)"

text \<open>The pair the key is built from.\<close>

definition titleArtist :: "(string \<Rightarrow> string) \<Rightarrow> 'a track_scheme \<Rightarrow> string \<times> string" where
  "titleArtist toLowerCase t = (toLowerCase (name t), toLowerCase (artist t))"

text \<open>The \<^verbatim>\<open>filter\<close> of \<^verbatim>\<open>removeDuplicateTracks\<close>, with its set \<^verbatim>\<open>seen\<close> passed along.\<close>

fun filterUnseen ::
  "(string \<Rightarrow> string) \<Rightarrow> string set \<Rightarrow> 'a track_scheme list \<Rightarrow> 'a track_scheme list" where
  "filterUnseen toLowerCase seen [] = []"
| "filterUnseen toLowerCase seen (t # ts) =
     (let key = dedupKey toLowerCase t
      in if key \<in> seen then filterUnseen toLowerCase seen ts
         else t # filterUnseen toLowerCase (insert key seen) ts)"

definition removeDuplicateTracks ::
  "(string \<Rightarrow> string) \<Rightarrow> 'a track_scheme list \<Rightarrow> 'a track_scheme list" where
  "removeDuplicateTracks toLowerCase tracks = filterUnseen toLowerCase {} tracks"

text \<open>
  \<^verbatim>\<open>sort((a, b) => b._similarity - a._similarity)\<close>. \<^verbatim>\<open>Array.prototype.sort\<close> is stable and
  takes a \<^verbatim>\<open>NaN\<close> from the comparator for 0, so \<open>a\<close> stays before a later \<open>b\<close> unless
  the comparator is positive. On numeric scores the comparator is consistent and the
  result is the stable sorted arrangement, which insertion from the right computes.
  With a \<^verbatim>\<open>NaN\<close> score the comparator is not consistent and the language leaves the
  order to the implementation; the model then gives one arrangement of the same
  elements, and no statement about order below covers that case.
\<close>

definition compareSimilarity :: "candidate \<Rightarrow> candidate \<Rightarrow> jsnum" where
  "compareSimilarity a b =
     (case (similarity b, similarity a) of
        (Num x, Num y) \<Rightarrow> Num (binary64 (x - y))
      | _ \<Rightarrow> NaN)"

definition positive :: "jsnum \<Rightarrow> bool" where
  "positive v = (case v of Num d \<Rightarrow> d > 0 | NaN \<Rightarrow> False)"

fun insertStable :: "('a \<Rightarrow> 'a \<Rightarrow> jsnum) \<Rightarrow> 'a \<Rightarrow> 'a list \<Rightarrow> 'a list" where
  "insertStable cmp a [] = [a]"
| "insertStable cmp a (b # bs) =
     (if positive (cmp a b) then b # insertStable cmp a bs else a # b # bs)"

definition js_sort :: "('a \<Rightarrow> 'a \<Rightarrow> jsnum) \<Rightarrow> 'a list \<Rightarrow> 'a list" where
  "js_sort cmp xs = foldr (insertStable cmp) xs []"

definition sortBySimilarity :: "candidate list \<Rightarrow> candidate list" where
  "sortBySimilarity cs = js_sort compareSimilarity cs"

text \<open>The number a numeric score stands for.\<close>

definition scoreValue :: "candidate \<Rightarrow> rat" where
  "scoreValue c = (case similarity c of Num v \<Rightarrow> v | NaN \<Rightarrow> 0)"

text \<open>\<^verbatim>\<open>xs.slice(0, end)\<close>: a negative \<open>end\<close> counts from the end of the list.\<close>

definition slice0 :: "int \<Rightarrow> 'a list \<Rightarrow> 'a list" where
  "slice0 end_ix xs =
     (if end_ix < 0 then take (nat (int (length xs) + end_ix)) xs else take (nat end_ix) xs)"

subsection \<open>The catalog and the strategy loop\<close>

text \<open>
  What one search request can come to: the request is rejected (network error), the
  response is not \<^verbatim>\<open>ok\<close>, its body is not a track page, or it carries the items.
\<close>

datatype search_response = Rejected | NotOk | Malformed | Items "track list"

datatype track_response = TrackRejected | TrackNotOk | TrackMalformed | TrackOk track

text \<open>The answer of the token endpoint: with \<^verbatim>\<open>access_token\<close> and \<^verbatim>\<open>expires_in\<close> when ok.\<close>

datatype token_response = TokenRejected | TokenNotOk | TokenOk string int

text \<open>
  The catalog as the server sees it: the answer of the token endpoint, the answer to a
  track request, and the answer to the \<open>i\<close>-th search request of a call with a given
  query.
\<close>

record catalog =
  tokenEndpoint :: token_response
  fetchTrack :: "string \<Rightarrow> track_response"
  search :: "nat \<Rightarrow> string \<Rightarrow> search_response"

text \<open>The requests a call makes, in the order in which it makes and awaits them.\<close>

datatype event =
    TokenRequested
  | TrackRequested string
  | SearchIssued string
  | SearchSettled string

text \<open>
  The two globals of the token cache, and \<^verbatim>\<open>getSpotifyToken\<close> (lines 609 to 643): a
  cached token is returned without a request while it is non-empty and more than five
  minutes from expiry; otherwise the token endpoint is asked, and its answer is stored
  or the call throws. The clock is read once for the check and once for the new expiry.
\<close>

record token_state =
  spotifyAccessToken :: string
  tokenExpiryTime :: int

record clock =
  checkedAt :: int
  obtainedAt :: int

definition getSpotifyToken ::
  "token_state \<Rightarrow> clock \<Rightarrow> token_response \<Rightarrow> string option \<times> token_state \<times> event list" where
  "getSpotifyToken st clk answer =
     (if spotifyAccessToken st \<noteq> [] \<and> checkedAt clk < tokenExpiryTime st - 300000
      then (Some (spotifyAccessToken st), st, [])
      else case answer of
             TokenOk access_token expires_in \<Rightarrow>
               (Some access_token,
                \<lparr> spotifyAccessToken = access_token,
                  tokenExpiryTime = obtainedAt clk + expires_in * 1000 \<rparr>,
                [TokenRequested])
           | _ \<Rightarrow> (None, st, [TokenRequested]))"

text \<open>What one round of the loop adds to \<^verbatim>\<open>allCandidates\<close>.\<close>

definition strategyHits ::
  "(string \<Rightarrow> string) \<Rightarrow> (nat \<Rightarrow> string \<Rightarrow> search_response) \<Rightarrow> features \<Rightarrow> track \<Rightarrow> nat \<Rightarrow>
     strategy \<Rightarrow> candidate list" where
  "strategyHits toLowerCase srch audioFeatures originalTrack i s =
     (case srch i (query s) of
        Items items \<Rightarrow>
          map (\<lambda>t. annotate (description s)
                 (calculateSimilarityScore toLowerCase audioFeatures t originalTrack) t)
              (filter (\<lambda>t. track_id t \<noteq> track_id originalTrack) items)
      | _ \<Rightarrow> [])"

text \<open>
  The \<^verbatim>\<open>for\<close> loop of lines 883 to 912. Each round issues one request and awaits it
  before anything else happens; whatever goes wrong inside the \<^verbatim>\<open>try\<close> leaves
  \<^verbatim>\<open>allCandidates\<close> as it was. The state is \<^verbatim>\<open>allCandidates\<close> and the trace of requests.
\<close>

fun runStrategies ::
  "(string \<Rightarrow> string) \<Rightarrow> (nat \<Rightarrow> string \<Rightarrow> search_response) \<Rightarrow> features \<Rightarrow> track \<Rightarrow> nat \<Rightarrow>
     strategy list \<Rightarrow> candidate list \<times> event list \<Rightarrow> candidate list \<times> event list" where
  "runStrategies toLowerCase srch audioFeatures originalTrack i [] st = st"
| "runStrategies toLowerCase srch audioFeatures originalTrack i (s # ss) (allCandidates, trace) =
     (let trace = trace @ [SearchIssued (query s)];
          searchResponse = srch i (query s);
          trace = trace @ [SearchSettled (query s)]
      in case searchResponse of
           Items items \<Rightarrow>
             (let tracks = filter (\<lambda>t. track_id t \<noteq> track_id originalTrack) items;
                  tracks = map (\<lambda>t. annotate (description s)
                                 (calculateSimilarityScore toLowerCase audioFeatures t
                                    originalTrack) t) tracks
              in runStrategies toLowerCase srch audioFeatures originalTrack (i + 1) ss
                   (allCandidates @ tracks, trace))
         | _ \<Rightarrow> runStrategies toLowerCase srch audioFeatures originalTrack (i + 1) ss
                 (allCandidates, trace))"

text \<open>
  The hits of all strategies in the order of the strategies, each strategy's hits in
  the order of the catalog's answer.
\<close>

fun mergedHits ::
  "(string \<Rightarrow> string) \<Rightarrow> (nat \<Rightarrow> string \<Rightarrow> search_response) \<Rightarrow> features \<Rightarrow> track \<Rightarrow> nat \<Rightarrow>
     strategy list \<Rightarrow> candidate list" where
  "mergedHits toLowerCase srch audioFeatures originalTrack i [] = []"
| "mergedHits toLowerCase srch audioFeatures originalTrack i (s # ss) =
     strategyHits toLowerCase srch audioFeatures originalTrack i s @
     mergedHits toLowerCase srch audioFeatures originalTrack (i + 1) ss"

text \<open>The merged list of one call, for a seed with the album \<open>alb\<close>.\<close>

definition mergedCandidates ::
  "(string \<Rightarrow> string) \<Rightarrow> (nat \<Rightarrow> string \<Rightarrow> search_response) \<Rightarrow> track \<Rightarrow> album \<Rightarrow> features \<Rightarrow>
     candidate list" where
  "mergedCandidates toLowerCase srch originalTrack alb audioFeatures =
     mergedHits toLowerCase srch audioFeatures originalTrack 0
       (searchStrategies originalTrack alb audioFeatures)"

datatype error = TypeError

text \<open>
  \<^verbatim>\<open>findSimilarTracksViaSpotify\<close>: reading \<^verbatim>\<open>originalTrack.album.name\<close> throws when the
  track has no album, before any request is made.
\<close>

definition findSimilarTracksViaSpotify ::
  "(string \<Rightarrow> string) \<Rightarrow> (nat \<Rightarrow> string \<Rightarrow> search_response) \<Rightarrow> track \<Rightarrow> features \<Rightarrow>
     error + candidate list \<times> event list" where
  "findSimilarTracksViaSpotify toLowerCase srch originalTrack audioFeatures =
     (case track_album originalTrack of
        None \<Rightarrow> Inl TypeError
      | Some alb \<Rightarrow>
          (let strategies = searchStrategies originalTrack alb audioFeatures;
               (allCandidates, trace) =
                  runStrategies toLowerCase srch audioFeatures originalTrack 0 strategies
                    ([], []);
               uniqueCandidates = removeDuplicateTracks toLowerCase allCandidates;
               sortedCandidates = sortBySimilarity uniqueCandidates
           in Inr (take 10 sortedCandidates, trace)))"

text \<open>The two components of a result, empty when the call threw.\<close>

definition resultTracks :: "error + candidate list \<times> event list \<Rightarrow> candidate list" where
  "resultTracks r = (case r of Inl e \<Rightarrow> [] | Inr (cs, trace) \<Rightarrow> cs)"

definition resultTrace :: "error + candidate list \<times> event list \<Rightarrow> event list" where
  "resultTrace r = (case r of Inl e \<Rightarrow> [] | Inr (cs, trace) \<Rightarrow> trace)"

text \<open>A search that did not deliver items, and a catalog whose failures deliver none.\<close>

definition failed :: "search_response \<Rightarrow> bool" where
  "failed r = (case r of Items items \<Rightarrow> False | _ \<Rightarrow> True)"

definition absorbFailures ::
  "(nat \<Rightarrow> string \<Rightarrow> search_response) \<Rightarrow> nat \<Rightarrow> string \<Rightarrow> search_response" where
  "absorbFailures srch i q = (if failed (srch i q) then Items [] else srch i q)"

text \<open>
  Two shapes of a trace of searches: one request after the other, each settled before
  the next is issued; and all requests issued before the first of them settles.
\<close>

fun sequentialTrace :: "strategy list \<Rightarrow> event list" where
  "sequentialTrace [] = []"
| "sequentialTrace (s # ss) =
     SearchIssued (query s) # SearchSettled (query s) # sequentialTrace ss"

fun isIssued :: "event \<Rightarrow> bool" where
  "isIssued (SearchIssued q) = True"
| "isIssued e = False"

fun fannedOut :: "event list \<Rightarrow> bool" where
  "fannedOut [] = True"
| "fannedOut (SearchSettled q # es) = (\<not> list_ex isIssued es)"
| "fannedOut (e # es) = fannedOut es"

subsection \<open>The routes\<close>

datatype 'a http = Status200 'a | Status400 string | Status500 string

text \<open>
  What a call leaves behind: the response, the requests it made, and the token cache.
\<close>

record 'a outcome =
  response :: "'a http"
  requests :: "event list"
  tokens :: token_state

record similar_response =
  originalTrack :: "string \<times> string \<times> string \<times> string"
  audioFeatures :: features
  similarTracks :: "candidate list"
  allSimilarTracks :: "candidate list"

text \<open>
  \<^verbatim>\<open>GET /api/similar-song/:trackId\<close> (lines 1067 to 1123). Everything that throws ends in
  the \<^verbatim>\<open>catch\<close> with status 500.
\<close>

definition similarSong ::
  "(string \<Rightarrow> string) \<Rightarrow> catalog \<Rightarrow> token_state \<Rightarrow> clock \<Rightarrow> (nat \<Rightarrow> rat) \<Rightarrow> string \<Rightarrow>
     similar_response outcome" where
  "similarSong toLowerCase cat st clk random trackId =
     (case getSpotifyToken st clk (tokenEndpoint cat) of
        (None, st, trace) \<Rightarrow>
          \<lparr> response = Status500 ''Failed to find similar song'', requests = trace,
            tokens = st \<rparr>
      | (Some tok, st, trace) \<Rightarrow>
          (let trace = trace @ [TrackRequested trackId]
           in case fetchTrack cat trackId of
                TrackOk trk \<Rightarrow>
                  (let features = getIntelligentFeatures toLowerCase random trk
                   in case findSimilarTracksViaSpotify toLowerCase (search cat) trk features of
                        Inl e \<Rightarrow>
                          \<lparr> response = Status500 ''Failed to find similar song'',
                            requests = trace, tokens = st \<rparr>
                      | Inr (similar, searches) \<Rightarrow>
                          \<lparr> response = Status200
                              \<lparr> originalTrack = (track_id trk, name trk, artist trk,
                                   case track_album trk of
                                     None \<Rightarrow> [] | Some a \<Rightarrow> album_name a),
                                audioFeatures = features,
                                similarTracks = take 5 similar,
                                allSimilarTracks = similar \<rparr>,
                            requests = trace @ searches, tokens = st \<rparr>)
              | _ \<Rightarrow>
                  \<lparr> response = Status500 ''Failed to find similar song'', requests = trace,
                    tokens = st \<rparr>))"

text \<open>
  \<^verbatim>\<open>GET /api/recommendations\<close> (lines 1126 to 1167). \<^verbatim>\<open>seed_tracks\<close> is rejected when it is
  missing or empty; \<^verbatim>\<open>limit\<close> is 9 when missing and is otherwise used as it comes, as
  the integer its text denotes. A seed response that is not \<^verbatim>\<open>ok\<close> gives an empty list,
  not an error.
\<close>

definition recommendations ::
  "(string \<Rightarrow> string) \<Rightarrow> catalog \<Rightarrow> token_state \<Rightarrow> clock \<Rightarrow> (nat \<Rightarrow> rat) \<Rightarrow> string option \<Rightarrow>
     int option \<Rightarrow> candidate list outcome" where
  "recommendations toLowerCase cat st clk random seed_tracks limit_param =
     (let limit = (case limit_param of None \<Rightarrow> 9 | Some l \<Rightarrow> l)
      in case seed_tracks of
           None \<Rightarrow>
             \<lparr> response = Status400 ''seed_tracks parameter required'', requests = [],
               tokens = st \<rparr>
         | Some seed \<Rightarrow>
             if seed = []
             then \<lparr> response = Status400 ''seed_tracks parameter required'', requests = [],
                    tokens = st \<rparr>
             else
               (case getSpotifyToken st clk (tokenEndpoint cat) of
                  (None, st, trace) \<Rightarrow>
                    \<lparr> response = Status500 ''Failed to get recommendations'',
                      requests = trace, tokens = st \<rparr>
                | (Some tok, st, trace) \<Rightarrow>
                    (let trace = trace @ [TrackRequested seed]
                     in case fetchTrack cat seed of
                          TrackOk trackData \<Rightarrow>
                            (let features = getIntelligentFeatures toLowerCase random trackData
                             in case findSimilarTracksViaSpotify toLowerCase (search cat)
                                       trackData features of
                                  Inl e \<Rightarrow>
                                    \<lparr> response = Status500 ''Failed to get recommendations'',
                                      requests = trace, tokens = st \<rparr>
                                | Inr (similar, searches) \<Rightarrow>
                                    \<lparr> response = Status200
                                        (slice0 (min limit (int (length similar))) similar),
                                      requests = trace @ searches, tokens = st \<rparr>)
                        | TrackNotOk \<Rightarrow>
                            \<lparr> response = Status200 [], requests = trace, tokens = st \<rparr>
                        | _ \<Rightarrow>
                            \<lparr> response = Status500 ''Failed to get recommendations'',
                              requests = trace, tokens = st \<rparr>)))"

subsection \<open>Sample inputs\<close>

text \<open>A random source that always draws 0.5, and a track without optional fields.\<close>

definition random_half :: "nat \<Rightarrow> rat" where
  "random_half i = 1/2"

definition party_track :: track where
  "party_track = \<lparr> track_id = ''p1'', name = ''Happy Dance Party'', artist = ''DJ Test'',
     track_album = None, popularity = None, duration_ms = None, explicit = None,
     preview_url = None \<rparr>"

text \<open>A seed track and two catalog hits.\<close>

definition seed_track :: track where
  "seed_track = \<lparr> track_id = ''seed'', name = ''Blue Sky'', artist = ''Ana'',
     track_album = Some \<lparr> album_name = ''Skies'', release_date = Some ''1999-05-01'' \<rparr>,
     popularity = Some 50, duration_ms = Some 200000, explicit = Some False,
     preview_url = None \<rparr>"

definition close_hit :: track where
  "close_hit = \<lparr> track_id = ''t1'', name = ''Red Sun'', artist = ''Bo'',
     track_album = None, popularity = Some 50, duration_ms = Some 200000,
     explicit = Some False, preview_url = Some ''https://p.example/t1'' \<rparr>"

definition other_hit :: track where
  "other_hit = \<lparr> track_id = ''t0'', name = ''Green Sea'', artist = ''Cy'',
     track_album = None, popularity = Some 50, duration_ms = Some 200000,
     explicit = Some False, preview_url = Some ''https://p.example/t0'' \<rparr>"

text \<open>Two hits with different titles and artists and the same key \<^verbatim>\<open>stop-go-go\<close>.\<close>

definition stop_by_gogo :: track where
  "stop_by_gogo = \<lparr> track_id = ''t3'', name = ''Stop'', artist = ''Go-Go'',
     track_album = None, popularity = Some 40, duration_ms = Some 180000,
     explicit = Some False, preview_url = None \<rparr>"

definition stopgo_by_go :: track where
  "stopgo_by_go = \<lparr> track_id = ''t4'', name = ''Stop-Go'', artist = ''Go'',
     track_album = None, popularity = Some 40, duration_ms = Some 180000,
     explicit = Some False, preview_url = None \<rparr>"

text \<open>
  A catalog that knows the seed: its first search returns the seed itself and two
  other tracks, its second search is rejected, and every later one is not \<^verbatim>\<open>ok\<close>.
\<close>

definition sample_search :: "nat \<Rightarrow> string \<Rightarrow> search_response" where
  "sample_search i q =
     (if i = 0 then Items [seed_track, close_hit, other_hit]
      else if i = 1 then Rejected else NotOk)"

definition sample_fetch :: "string \<Rightarrow> track_response" where
  "sample_fetch trackId = (if trackId = ''seed'' then TrackOk seed_track else TrackNotOk)"

definition sample_catalog :: catalog where
  "sample_catalog = \<lparr> tokenEndpoint = TokenOk ''tok'' 3600, fetchTrack = sample_fetch,
     search = sample_search \<rparr>"

text \<open>The same catalog with every search failing.\<close>

definition failing_search :: "nat \<Rightarrow> string \<Rightarrow> search_response" where
  "failing_search i q = (if i = 0 then Rejected else if i = 1 then Malformed else NotOk)"

definition failing_catalog :: catalog where
  "failing_catalog = \<lparr> tokenEndpoint = TokenOk ''tok'' 3600, fetchTrack = sample_fetch,
     search = failing_search \<rparr>"

text \<open>
  The seed as a track object without an album, which the estimator accepts, and a
  catalog that delivers it.
\<close>

definition bare_seed :: track where
  "bare_seed = \<lparr> track_id = ''seed'', name = ''Blue Sky'', artist = ''Ana'',
     track_album = None, popularity = Some 50, duration_ms = Some 200000,
     explicit = Some False, preview_url = None \<rparr>"

definition bare_fetch :: "string \<Rightarrow> track_response" where
  "bare_fetch trackId = (if trackId = ''seed'' then TrackOk bare_seed else TrackNotOk)"

definition bare_catalog :: catalog where
  "bare_catalog = \<lparr> tokenEndpoint = TokenOk ''tok'' 3600, fetchTrack = bare_fetch,
     search = sample_search \<rparr>"

text \<open>A server that has no token yet, one that holds a fresh token, and a clock.\<close>

definition cold_tokens :: token_state where
  "cold_tokens = \<lparr> spotifyAccessToken = [], tokenExpiryTime = 0 \<rparr>"

definition warm_tokens :: token_state where
  "warm_tokens = \<lparr> spotifyAccessToken = ''tok'', tokenExpiryTime = 3600000 \<rparr>"

definition sample_clock :: clock where
  "sample_clock = \<lparr> checkedAt = 1000, obtainedAt = 1001 \<rparr>"

text \<open>The two other tracks as the first strategy scores them against the seed.\<close>

definition scored_t1 :: candidate where
  "scored_t1 = annotate ''Similar genre, different artist'' (Num maxScore) close_hit"

definition scored_t0 :: candidate where
  "scored_t0 = annotate ''Similar genre, different artist'' (Num maxScore) other_hit"

section \<open>Properties of the estimator\<close>

lemma round3_unit: "0 \<le> v \<Longrightarrow> v \<le> 1 \<Longrightarrow> in_unit (round3 v)"
proof -
  assume lo: "0 \<le> v" and hi: "v \<le> 1"
  have "(0::int) \<le> \<lfloor>v * 1000 + 1/2\<rfloor>" using lo by simp
  moreover have "\<lfloor>v * 1000 + 1/2\<rfloor> \<le> (1000::int)"
  proof -
    have "v * 1000 + 1/2 < 1001" using hi by simp
    then have "\<lfloor>v * 1000 + 1/2\<rfloor> < (1001::int)" by (simp add: floor_less_iff)
    then show ?thesis by simp
  qed
  ultimately show ?thesis
    by (simp add: round3_def in_unit_def)
qed

lemma jitter01_unit: "in_unit (round3 (jitter01 r v))"
  by (rule round3_unit) (simp_all add: jitter01_def Let_def)

lemma round3_tempo: "60 \<le> v \<Longrightarrow> v \<le> 200 \<Longrightarrow> 60 \<le> round3 v \<and> round3 v \<le> 200"
proof -
  assume lo: "60 \<le> v" and hi: "v \<le> 200"
  have "(60000::int) \<le> \<lfloor>v * 1000 + 1/2\<rfloor>"
  proof -
    have "(60000::rat) \<le> v * 1000 + 1/2" using lo by simp
    then show ?thesis by (simp add: le_floor_iff)
  qed
  moreover have "\<lfloor>v * 1000 + 1/2\<rfloor> \<le> (200000::int)"
  proof -
    have "v * 1000 + 1/2 < 200001" using hi by simp
    then have "\<lfloor>v * 1000 + 1/2\<rfloor> < (200001::int)" by (simp add: floor_less_iff)
    then show ?thesis by simp
  qed
  ultimately show ?thesis
    by (simp add: round3_def le_divide_eq divide_le_eq)
qed

lemma jitterTempo_range: "60 \<le> round3 (jitterTempo r v) \<and> round3 (jitterTempo r v) \<le> 200"
  by (rule round3_tempo) (simp_all add: jitterTempo_def)

lemma jittered_in_range: "features_in_range (roundFeatures (addRandomness random n f))"
  using jitterTempo_range [of "random (n + 7)" "tempo f"]
  by (simp add: features_in_range_def roundFeatures_def addRandomness_def jitter01_unit)

lemma applyIf_loudness:
  "(\<And>f. loudness (g f) = loudness f) \<Longrightarrow> loudness (applyIf c g f) = loudness f"
  by (simp add: applyIf_def)

lemma adjust_loudness: "loudness (fst (adjustFeatures toLowerCase random trackData)) = -8"
proof -
  have "loudness baseFeatures = -8" by (simp add: baseFeatures_def)
  then show ?thesis
    by (simp add: adjustFeatures_def Let_def applyIf_loudness energeticAdjust_def
        chillAdjust_def sadAdjust_def happyAdjust_def romanticAdjust_def artistAdjust_def
        durationAdjust_def popularityAdjust_def)
qed

lemma round3_zero: "round3 0 = 0"
  by (simp add: round3_def floor_eq_iff)

text \<open>
  C1: for every track (whatever its optional fields) and every sequence of random
  draws, the seven unit-range features of the estimate lie in [0,1] and the tempo lies
  in [60,200].
\<close>

theorem estimate_in_range:
  "features_in_range (fst (generateIntelligentFeatures toLowerCase random trackData))"
proof -
  obtain f n where fn: "adjustFeatures toLowerCase random trackData = (f, n)"
    by (cases "adjustFeatures toLowerCase random trackData")
  have "fst (generateIntelligentFeatures toLowerCase random trackData) =
        roundFeatures (addRandomness random n f)"
    by (simp add: generateIntelligentFeatures_def fn)
  then show ?thesis
    by (simp only: jittered_in_range)
qed

text \<open>The estimate for the sample track under the constant source.\<close>

lemma estimate_value:
  "fst (generateIntelligentFeatures asciiLowerCase random_half party_track) =
     \<lparr> acousticness = 3/10, danceability = 9/10, energy = 9/10, instrumentalness = 1/10,
       liveness = 1/10, loudness = 0, speechiness = 1/20, tempo = 150, valence = 8/10 \<rparr>"
  by code_simp

theorem estimate_in_range_witness:
  "features_in_range (fst (generateIntelligentFeatures asciiLowerCase random_half party_track)) \<and>
   tempo (fst (generateIntelligentFeatures asciiLowerCase random_half party_track)) = 150"
  using estimate_in_range [of asciiLowerCase random_half party_track] by (simp add: estimate_value)

text \<open>
  C10: for every track and every sequence of draws from [0,1), the loudness of the
  estimate is exactly 0: the base value -8 is touched by no adjustment, and the jitter
  loop clamps loudness into [0,1] like every key other than tempo, so the value that
  is rounded is 0.
\<close>

theorem loudness_zero:
  assumes "\<forall>i. 0 \<le> random i \<and> random i < 1"
  shows "loudness (fst (generateIntelligentFeatures toLowerCase random trackData)) = 0"
proof -
  obtain f n where fn: "adjustFeatures toLowerCase random trackData = (f, n)"
    by (cases "adjustFeatures toLowerCase random trackData")
  have l8: "loudness f = -8"
    using adjust_loudness [of toLowerCase random trackData] fn by simp
  have "random (n + 5) < 1"
    using assms by blast
  then have "jitter01 (random (n + 5)) (loudness f) = 0"
    by (simp add: jitter01_def l8 Let_def max_def min_def)
  then show ?thesis
    by (simp add: generateIntelligentFeatures_def fn roundFeatures_def addRandomness_def
        round3_zero)
qed

text \<open>For the constant source and the sample track, loudness is 0.\<close>

theorem loudness_zero_witness:
  "(\<forall>i. 0 \<le> random_half i \<and> random_half i < 1) \<and>
   loudness (fst (generateIntelligentFeatures asciiLowerCase random_half party_track)) = 0"
proof -
  have r: "\<forall>i. 0 \<le> random_half i \<and> random_half i < 1"
    by (simp add: random_half_def)
  show ?thesis
    using r loudness_zero [OF r, of asciiLowerCase party_track] by simp
qed

section \<open>Properties of binary64 rounding\<close>

text \<open>
  Rounding to the nearest integer is monotone and leaves integers alone; the exponent
  brackets its argument; so rounding to binary64 is monotone, keeps the sign and
  leaves 0, 1 and 100 alone.
\<close>

lemma roundHalfEven_of_int: "roundHalfEven (of_int n) = n"
  by (simp add: roundHalfEven_def)

lemma roundHalfEven_range: "\<lfloor>y\<rfloor> \<le> roundHalfEven y \<and> roundHalfEven y \<le> \<lfloor>y\<rfloor> + 1"
  by (simp add: roundHalfEven_def Let_def)

lemma roundHalfEven_mono:
  assumes "y \<le> z"
  shows "roundHalfEven y \<le> roundHalfEven z"
proof (cases "\<lfloor>y\<rfloor> = \<lfloor>z\<rfloor>")
  case True
  have "y - of_int \<lfloor>y\<rfloor> \<le> z - of_int \<lfloor>z\<rfloor>"
    using assms True by simp
  then show ?thesis
    using True by (auto simp: roundHalfEven_def Let_def)
next
  case False
  have "\<lfloor>y\<rfloor> \<le> \<lfloor>z\<rfloor>" using assms by (rule floor_mono)
  then have "\<lfloor>y\<rfloor> + 1 \<le> \<lfloor>z\<rfloor>" using False by simp
  then show ?thesis
    using roundHalfEven_range [of y] roundHalfEven_range [of z] by linarith
qed


lemma roundHalfEven_le: "y \<le> of_int n \<Longrightarrow> roundHalfEven y \<le> n"
  using roundHalfEven_mono [of y "of_int n"] by (simp add: roundHalfEven_of_int)

lemma roundHalfEven_ge: "of_int n \<le> y \<Longrightarrow> n \<le> roundHalfEven y"
  using roundHalfEven_mono [of "of_int n" y] by (simp add: roundHalfEven_of_int)

lemma exponent_bounds:
  assumes "0 < x"
  shows "2 powi exponent x \<le> x \<and> x < 2 powi (exponent x + 1)"
proof -
  obtain p q where pq: "quotient_of x = (p, q)" by (cases "quotient_of x")
  have q: "0 < q" using pq by (rule quotient_of_denom_pos)
  have x: "x = of_int p / of_int q" using pq by (rule quotient_of_div)
  have p: "0 < p" using assms q unfolding x by (simp add: zero_less_divide_iff)
  define a where "a = bitlen p"
  define b where "b = bitlen q"
  have a1: "1 \<le> a" using p unfolding a_def by (simp add: bitlen_alt_def)
  have b1: "1 \<le> b" using q unfolding b_def by (simp add: bitlen_alt_def)
  have pa: "(2::rat) powi (a - 1) \<le> of_int p" "of_int p < (2::rat) powi a"
  proof -
    have "2 ^ nat (a - 1) \<le> p" "p < 2 ^ nat a"
      using bitlen_bounds [OF p] unfolding a_def by simp_all
    then have "(of_int (2 ^ nat (a - 1)) :: rat) \<le> of_int p" "(of_int p :: rat) < of_int (2 ^ nat a)"
      by (simp_all only: of_int_le_iff of_int_less_iff)
    then show "(2::rat) powi (a - 1) \<le> of_int p" "of_int p < (2::rat) powi a"
      using a1 by (simp_all add: power_int_def)
  qed
  have qb: "(2::rat) powi (b - 1) \<le> of_int q" "of_int q < (2::rat) powi b"
  proof -
    have "2 ^ nat (b - 1) \<le> q" "q < 2 ^ nat b"
      using bitlen_bounds [OF q] unfolding b_def by simp_all
    then have "(of_int (2 ^ nat (b - 1)) :: rat) \<le> of_int q" "(of_int q :: rat) < of_int (2 ^ nat b)"
      by (simp_all only: of_int_le_iff of_int_less_iff)
    then show "(2::rat) powi (b - 1) \<le> of_int q" "of_int q < (2::rat) powi b"
      using b1 by (simp_all add: power_int_def)
  qed
  have qpos: "(0::rat) < of_int q" using q by simp
  have upper: "x < 2 powi (a - b + 1)"
  proof -
    have "x < 2 powi a / of_int q"
      unfolding x using pa(2) qpos by (simp add: divide_strict_right_mono)
    also have "\<dots> \<le> 2 powi a / 2 powi (b - 1)"
      using qb(1) qpos by (intro divide_left_mono mult_pos_pos) simp_all
    also have "\<dots> = 2 powi (a - (b - 1))"
      by (simp add: power_int_diff)
    finally show ?thesis by (simp add: algebra_simps)
  qed
  have lower: "2 powi (a - b - 1) < x"
  proof -
    have "(2::rat) powi (a - b - 1) = 2 powi ((a - 1) - b)" by (simp add: algebra_simps)
    also have "\<dots> = 2 powi (a - 1) / 2 powi b"
      by (simp add: power_int_diff)
    also have "\<dots> < 2 powi (a - 1) / of_int q"
      using qb(2) qpos by (intro divide_strict_left_mono mult_pos_pos) simp_all
    also have "\<dots> \<le> x"
      unfolding x using pa(1) qpos by (simp add: divide_right_mono)
    finally show ?thesis .
  qed
  have e: "exponent x = (if 2 powi (a - b) \<le> x then a - b else a - b - 1)"
    by (simp add: exponent_def pq a_def b_def)
  show ?thesis
  proof (cases "2 powi (a - b) \<le> x")
    case True
    then show ?thesis using upper e by simp
  next
    case False
    then have "x < 2 powi (a - b)" by simp
    then show ?thesis using lower e False by simp
  qed
qed

lemma exponent_mono:
  assumes "0 < x" "x \<le> y"
  shows "exponent x \<le> exponent y"
proof -
  have "(2::rat) powi exponent x \<le> x"
    using exponent_bounds [OF assms(1)] by simp
  also have "x \<le> y" by (rule assms(2))
  also have "y < 2 powi (exponent y + 1)"
    using exponent_bounds [of y] assms by simp
  finally have lt: "(2::rat) powi exponent x < 2 powi (exponent y + 1)" .
  have "exponent x < exponent y + 1"
  proof (rule ccontr)
    assume "\<not> exponent x < exponent y + 1"
    then have "exponent y + 1 \<le> exponent x" by simp
    then have "(2::rat) powi (exponent y + 1) \<le> 2 powi exponent x"
      by (rule power_int_increasing) simp
    with lt show False by simp
  qed
  then show ?thesis by simp
qed


lemma roundPositive_bounds:
  assumes "0 < x"
  shows "2 powi exponent x \<le> roundPositive x \<and> roundPositive x \<le> 2 powi (exponent x + 1)"
proof -
  define e where "e = exponent x"
  define s :: rat where "s = 2 powi (52 - e)"
  define m where "m = roundHalfEven (x * s)"
  have s: "0 < s" by (simp add: s_def)
  have b: "2 powi e \<le> x" "x < 2 powi (e + 1)"
    using exponent_bounds [OF assms] by (simp_all add: e_def)
  have "(2::rat) powi e * s = 2 powi (e + (52 - e))"
    unfolding s_def by (subst power_int_add) simp_all
  then have "(2::rat) powi e * s = 2 powi 52" by simp
  then have lo: "of_int (2 ^ 52) \<le> x * s"
    using mult_right_mono [OF b(1), of s] s by simp
  have "(2::rat) powi (e + 1) * s = 2 powi ((e + 1) + (52 - e))"
    unfolding s_def by (subst power_int_add [of _ "e + 1"]) simp_all
  then have "(2::rat) powi (e + 1) * s = 2 powi 53" by simp
  then have hi: "x * s \<le> of_int (2 ^ 53)"
    using mult_right_mono [OF less_imp_le [OF b(2)], of s] s by simp
  have m: "2 ^ 52 \<le> m" "m \<le> 2 ^ 53"
    unfolding m_def using lo hi by (simp_all only: roundHalfEven_ge roundHalfEven_le)
  have r: "roundPositive x = of_int m * 2 powi (e - 52)"
    by (simp add: roundPositive_def m_def s_def e_def)
  have t: "(0::rat) < 2 powi (e - 52)" by simp
  have c52: "of_int (2 ^ 52) * (2::rat) powi (e - 52) = 2 powi e"
  proof -
    have "of_int (2 ^ 52) * (2::rat) powi (e - 52) = 2 powi 52 * 2 powi (e - 52)" by simp
    also have "\<dots> = 2 powi (52 + (e - 52))" by (subst power_int_add) simp_all
    finally show ?thesis by simp
  qed
  have c53: "of_int (2 ^ 53) * (2::rat) powi (e - 52) = 2 powi (e + 1)"
  proof -
    have "of_int (2 ^ 53) * (2::rat) powi (e - 52) = 2 powi 53 * 2 powi (e - 52)" by simp
    also have "\<dots> = 2 powi (53 + (e - 52))" by (subst power_int_add) simp_all
    finally show ?thesis by (simp add: algebra_simps)
  qed
  have "of_int (2 ^ 52) * 2 powi (e - 52) \<le> of_int m * (2::rat) powi (e - 52)"
    using m(1) t by (intro mult_right_mono) (simp_all only: of_int_le_iff less_imp_le)
  then have lower: "2 powi e \<le> of_int m * (2::rat) powi (e - 52)"
    unfolding c52 .
  have "of_int m * (2::rat) powi (e - 52) \<le> of_int (2 ^ 53) * 2 powi (e - 52)"
    using m(2) t by (intro mult_right_mono) (simp_all only: of_int_le_iff less_imp_le)
  then have upper: "of_int m * (2::rat) powi (e - 52) \<le> 2 powi (e + 1)"
    unfolding c53 .
  show ?thesis
    unfolding r e_def [symmetric] using lower upper by (rule conjI)
qed

lemma roundPositive_mono:
  assumes "0 < x" "x \<le> y"
  shows "roundPositive x \<le> roundPositive y"
proof (cases "exponent x = exponent y")
  case True
  define s :: rat where "s = 2 powi (52 - exponent y)"
  have "x * s \<le> y * s"
    using assms(2) by (intro mult_right_mono) (simp_all add: s_def)
  then have "roundHalfEven (x * s) \<le> roundHalfEven (y * s)"
    by (rule roundHalfEven_mono)
  then have "(of_int (roundHalfEven (x * s)) :: rat) \<le> of_int (roundHalfEven (y * s))"
    by (simp only: of_int_le_iff)
  then have "of_int (roundHalfEven (x * s)) * (2::rat) powi (exponent y - 52)
           \<le> of_int (roundHalfEven (y * s)) * 2 powi (exponent y - 52)"
    by (intro mult_right_mono) simp_all
  then show ?thesis
    by (simp add: roundPositive_def True s_def)
next
  case False
  have y: "0 < y" using assms by simp
  have "exponent x \<le> exponent y" using assms by (rule exponent_mono)
  then have "exponent x + 1 \<le> exponent y" using False by simp
  then have "(2::rat) powi (exponent x + 1) \<le> 2 powi exponent y"
    by (rule power_int_increasing) simp
  then show ?thesis
    using roundPositive_bounds [OF assms(1)] roundPositive_bounds [OF y] by linarith
qed

lemma roundPositive_pos: "0 < x \<Longrightarrow> 0 < roundPositive x"
proof -
  assume "0 < x"
  then have "2 powi exponent x \<le> roundPositive x"
    using roundPositive_bounds by blast
  moreover have "(0::rat) < 2 powi exponent x" by simp
  ultimately show ?thesis by linarith
qed

lemma binary64_minus: "binary64 (- x) = - binary64 x"
  by (simp add: binary64_def)

lemma binary64_pos: "0 < x \<Longrightarrow> 0 < binary64 x"
  by (simp add: binary64_def roundPositive_pos)

lemma binary64_nonneg: "0 \<le> x \<Longrightarrow> 0 \<le> binary64 x"
  using binary64_pos [of x] by (cases "x = 0") (simp_all add: binary64_def less_imp_le)

lemma binary64_mono:
  assumes "x \<le> y"
  shows "binary64 x \<le> binary64 y"
proof -
  consider "0 < x" | "x \<le> 0" "0 \<le> y" | "y < 0" by linarith
  then show ?thesis
  proof cases
    case 1
    then show ?thesis
      using assms roundPositive_mono [of x y] by (simp add: binary64_def)
  next
    case 2
    have "binary64 x \<le> 0"
      using binary64_nonneg [of "- x"] 2(1) by (simp add: binary64_minus)
    moreover have "0 \<le> binary64 y"
      using 2(2) by (rule binary64_nonneg)
    ultimately show ?thesis by linarith
  next
    case 3
    then have "roundPositive (- y) \<le> roundPositive (- x)"
      using assms by (intro roundPositive_mono) simp_all
    then show ?thesis
      using 3 assms by (simp add: binary64_def)
  qed
qed

lemma binary64_positive_iff: "0 < binary64 x \<longleftrightarrow> 0 < x"
proof
  assume "0 < binary64 x"
  show "0 < x"
  proof (rule ccontr)
    assume "\<not> 0 < x"
    then have "x \<le> 0" by simp
    then have "binary64 x \<le> binary64 0" by (rule binary64_mono)
    then show False using \<open>0 < binary64 x\<close> by (simp add: binary64_def)
  qed
next
  assume "0 < x"
  then show "0 < binary64 x" by (rule binary64_pos)
qed

lemma binary64_one: "binary64 1 = 1"
  by code_simp

lemma binary64_hundred: "binary64 100 = 100"
  by code_simp

lemma binary64_zero: "binary64 0 = 0"
  by (simp add: binary64_def)

section \<open>Properties of the score\<close>

text \<open>The constants and the sample score, evaluated.\<close>

lemma maxScore_eval:
  "binary64 (binary64 (1 + binary64 (1/10)) + binary64 (1/20)) = maxScore"
  unfolding maxScore_def by code_simp

lemma preview_bonus_eval:
  "binary64 (1 + binary64 (1/10)) = 2476979795053773 / 2251799813685248"
  by code_simp

lemma maxScore_above_one: "1 < maxScore"
  by (simp add: maxScore_def)

lemma binary64_zero_iff: "binary64 x = 0 \<longleftrightarrow> x = 0"
proof
  assume z: "binary64 x = 0"
  show "x = 0"
  proof (rule ccontr)
    assume "x \<noteq> 0"
    then consider "0 < x" | "0 < - x" by linarith
    then show False
    proof cases
      case 1
      then show False using binary64_pos [of x] z by simp
    next
      case 2
      then show False using binary64_pos [of "- x"] z by (simp add: binary64_minus)
    qed
  qed
next
  assume "x = 0"
  then show "binary64 x = 0" by (simp add: binary64_zero)
qed

lemma toNumber_zero_iff: "toNumber n = 0 \<longleftrightarrow> n = 0"
  by (simp add: toNumber_def binary64_zero_iff)

lemma toNumber_pos: "0 < n \<Longrightarrow> 0 < toNumber n"
  by (simp add: toNumber_def binary64_pos)

lemma toNumber_percent:
  assumes "0 \<le> n" "n \<le> 100"
  shows "0 \<le> toNumber n \<and> toNumber n \<le> 100"
proof -
  have "(0::rat) \<le> of_int n" "(of_int n :: rat) \<le> 100"
    using assms by simp_all
  then have "binary64 0 \<le> binary64 (of_int n)" "binary64 (of_int n) \<le> binary64 100"
    by (simp_all only: binary64_mono)
  then show ?thesis
    by (simp add: toNumber_def binary64_zero binary64_hundred)
qed

text \<open>
  For popularities in [0,100] the quotient \<^verbatim>\<open>popularityDiff\<close> is at most 1, so a cap at
  1 changes nothing.
\<close>

lemma popularity_diff_capped:
  assumes "0 \<le> pc" "pc \<le> 100" "0 \<le> ps" "ps \<le> 100"
  shows "binary64 (\<bar>binary64 (toNumber pc - toNumber ps)\<bar> / 100) \<le> 1"
proof -
  have "- 100 \<le> toNumber pc - toNumber ps" "toNumber pc - toNumber ps \<le> 100"
    using toNumber_percent [OF assms(1,2)] toNumber_percent [OF assms(3,4)] by linarith+
  then have "binary64 (- 100) \<le> binary64 (toNumber pc - toNumber ps)"
    "binary64 (toNumber pc - toNumber ps) \<le> binary64 100"
    by (simp_all only: binary64_mono)
  then have "\<bar>binary64 (toNumber pc - toNumber ps)\<bar> \<le> 100"
    by (simp add: binary64_minus binary64_hundred abs_le_iff)
  then have "\<bar>binary64 (toNumber pc - toNumber ps)\<bar> / 100 \<le> 1"
    by simp
  then have "binary64 (\<bar>binary64 (toNumber pc - toNumber ps)\<bar> / 100) \<le> binary64 1"
    by (rule binary64_mono)
  then show ?thesis
    by (simp only: binary64_one)
qed

text \<open>
  The two penalties for tracks that carry popularity and duration, with a seed
  duration other than 0.
\<close>

lemma popularityPenalty_numeric:
  "popularityPenalty (Some pc) (Some ps) =
     Num (binary64 (binary64 (\<bar>binary64 (toNumber pc - toNumber ps)\<bar> / 100) * binary64 (1/10)))"
  by (simp add: popularityPenalty_def Let_def)

lemma durationPenalty_numeric:
  "ds \<noteq> 0 \<Longrightarrow>
   durationPenalty (Some dc) (Some ds) =
     Num (binary64 (min (binary64 (\<bar>binary64 (toNumber dc - toNumber ds)\<bar> / toNumber ds)) (1/2)
                    * binary64 (1/10)))"
  by (simp add: durationPenalty_def Let_def toNumber_zero_iff)

lemma score_steps:
  assumes "popularity c = Some pc" "popularity s = Some ps"
    "duration_ms c = Some dc" "duration_ms s = Some ds" "ds \<noteq> 0"
  shows "calculateSimilarityScore toLowerCase fs c s =
     Num (max 0
       (let P = binary64 (binary64 (\<bar>binary64 (toNumber pc - toNumber ps)\<bar> / 100)
                            * binary64 (1/10));
            D = binary64 (min (binary64 (\<bar>binary64 (toNumber dc - toNumber ds)\<bar> / toNumber ds))
                            (1/2) * binary64 (1/10));
            s0 = (if toLowerCase (artist c) = toLowerCase (artist s)
                  then binary64 (1 - binary64 (3/10)) else 1);
            s1 = binary64 (s0 - P);
            s2 = binary64 (s1 - D);
            s3 = (if hasPreview c then binary64 (s2 + binary64 (1/10)) else s2)
        in if explicit c = explicit s then binary64 (s3 + binary64 (1/20)) else s3))"
proof -
  have e: "(explicit s = explicit c) = (explicit c = explicit s)"
    by auto
  show ?thesis
    unfolding calculateSimilarityScore_def assms(1-4) popularityPenalty_numeric
      durationPenalty_numeric [OF assms(5)] e
    by (simp add: Let_def)
qed

text \<open>With the cap out of the way the steps of the code are the specified formula.\<close>

lemma score_is_specified:
  assumes "popularity c = Some pc" "popularity s = Some ps"
    and "duration_ms c = Some dc" "duration_ms s = Some ds" "ds \<noteq> 0"
    and "0 \<le> pc" "pc \<le> 100" "0 \<le> ps" "ps \<le> 100"
  shows "calculateSimilarityScore toLowerCase fs c s =
     Num (specified_score (toLowerCase (artist c) = toLowerCase (artist s))
            pc ps dc ds (hasPreview c) (explicit c = explicit s))"
proof -
  have cap: "min (binary64 (\<bar>binary64 (toNumber pc - toNumber ps)\<bar> / 100)) 1 =
             binary64 (\<bar>binary64 (toNumber pc - toNumber ps)\<bar> / 100)"
    using popularity_diff_capped [OF assms(6-9)] by (rule min_absorb1)
  show ?thesis
    unfolding score_steps [OF assms(1-5)] specified_score_def
    by (simp add: Let_def cap)
qed

text \<open>
  C2: for a candidate and a seed as the data model has them (popularities in
  [0,100], durations present, safe integers and a seed duration other than 0), the
  score computed by \<^verbatim>\<open>calculateSimilarityScore\<close> is the specified one: 1.0, minus 0.3 for
  the same primary artist compared in lower case, minus min(|popularity difference| /
  100, 1) * 0.1, minus min(|duration difference| / seed duration, 0.5) * 0.1, plus 0.1
  for a playable preview, plus 0.05 for equal explicit flags, floored at 0.
\<close>

theorem score_formula:
  assumes "popularity c = Some pc" "popularity s = Some ps"
    and "duration_ms c = Some dc" "duration_ms s = Some ds" "ds \<noteq> 0"
    and "0 \<le> pc" "pc \<le> 100" "0 \<le> ps" "ps \<le> 100"
    and "safeInteger dc" "safeInteger ds"
  shows "calculateSimilarityScore toLowerCase fs c s =
     Num (specified_score (toLowerCase (artist c) = toLowerCase (artist s))
            pc ps dc ds (hasPreview c) (explicit c = explicit s))"
  using assms(1-9) by (rule score_is_specified)

text \<open>
  A candidate by another artist with the seed's popularity, duration and explicit
  flag and with a preview: the specified score is the double 1.1500000000000001.
\<close>

lemma sample_specified_score:
  "specified_score False 50 50 200000 200000 True True = maxScore"
  unfolding maxScore_def by code_simp

theorem score_formula_witness:
  "popularity close_hit = Some 50 \<and> popularity seed_track = Some 50 \<and>
   duration_ms close_hit = Some 200000 \<and> duration_ms seed_track = Some 200000 \<and>
   (200000::int) \<noteq> 0 \<and> (0::int) \<le> 50 \<and> (50::int) \<le> 100 \<and>
   safeInteger 200000 \<and>
   calculateSimilarityScore asciiLowerCase baseFeatures close_hit seed_track =
     Num (specified_score False 50 50 200000 200000 True True) \<and>
   specified_score False 50 50 200000 200000 True True = maxScore"
proof -
  have a: "popularity close_hit = Some 50" "duration_ms close_hit = Some 200000"
    by (simp_all add: close_hit_def)
  have b: "popularity seed_track = Some 50" "duration_ms seed_track = Some 200000"
    by (simp_all add: seed_track_def)
  have n: "(200000::int) \<noteq> 0" "(0::int) \<le> 50" "(50::int) \<le> 100" "safeInteger 200000"
    by (simp_all add: safeInteger_def)
  have f: "(asciiLowerCase (artist close_hit) = asciiLowerCase (artist seed_track)) = False"
    "hasPreview close_hit = True" "(explicit close_hit = explicit seed_track) = True"
    by (simp_all add: close_hit_def seed_track_def hasPreview_def asciiLowerCase_def
        lower_char_def)
  have "calculateSimilarityScore asciiLowerCase baseFeatures close_hit seed_track =
     Num (specified_score False 50 50 200000 200000 True True)"
    using score_formula [OF a(1) b(1) a(2) b(2) n(1) n(2) n(3) n(2) n(3) n(4) n(4),
        of asciiLowerCase baseFeatures]
    unfolding f .
  then show ?thesis
    using a b n sample_specified_score by blast
qed

text \<open>
  C3, as the code has it: for popularities in [0,100], durations that are present
  and safe integers and a positive seed duration, the score is a number in
  [0, 1.1500000000000001], the upper end being the double that 1.0 + 0.1 + 0.05
  evaluates to: the two bonuses are added to a score that starts at 1.0 and nothing
  caps the sum at 1.
\<close>

theorem score_range:
  assumes "popularity c = Some pc" "0 \<le> pc" "pc \<le> 100"
    and "popularity s = Some ps" "0 \<le> ps" "ps \<le> 100"
    and "duration_ms c = Some dc" "duration_ms s = Some ds" "0 < ds"
    and "safeInteger dc" "safeInteger ds"
  shows "\<exists>v. calculateSimilarityScore toLowerCase fs c s = Num v \<and> 0 \<le> v \<and> v \<le> maxScore"
proof -
  define P where
    "P = binary64 (binary64 (\<bar>binary64 (toNumber pc - toNumber ps)\<bar> / 100) * binary64 (1/10))"
  define D where
    "D = binary64 (min (binary64 (\<bar>binary64 (toNumber dc - toNumber ds)\<bar> / toNumber ds)) (1/2)
                   * binary64 (1/10))"
  define s0 where
    "s0 = (if toLowerCase (artist c) = toLowerCase (artist s)
           then binary64 (1 - binary64 (3/10)) else 1)"
  define s1 where "s1 = binary64 (s0 - P)"
  define s2 where "s2 = binary64 (s1 - D)"
  define s3 where "s3 = (if hasPreview c then binary64 (s2 + binary64 (1/10)) else s2)"
  define s4 where "s4 = (if explicit c = explicit s then binary64 (s3 + binary64 (1/20)) else s3)"
  define T where "T = binary64 (1 + binary64 (1/10))"
  have ds0: "ds \<noteq> 0" using assms(9) by simp
  have score: "calculateSimilarityScore toLowerCase fs c s = Num (max 0 s4)"
    unfolding score_steps [OF assms(1) assms(4) assms(7) assms(8) ds0]
    by (simp add: Let_def P_def D_def s0_def s1_def s2_def s3_def s4_def)
  have tenth: "0 \<le> binary64 (1/10)" and twentieth: "0 \<le> binary64 (1/20)"
    and three: "0 \<le> binary64 (3/10)"
    by (simp_all add: binary64_nonneg)
  have P: "0 \<le> P"
    unfolding P_def using tenth by (intro binary64_nonneg mult_nonneg_nonneg) simp_all
  have "0 < toNumber ds" using assms(9) by (rule toNumber_pos)
  then have "0 \<le> \<bar>binary64 (toNumber dc - toNumber ds)\<bar> / toNumber ds"
    by simp
  then have "0 \<le> binary64 (\<bar>binary64 (toNumber dc - toNumber ds)\<bar> / toNumber ds)"
    by (rule binary64_nonneg)
  then have D: "0 \<le> D"
    unfolding D_def using tenth by (intro binary64_nonneg mult_nonneg_nonneg) simp_all
  have "binary64 (1 - binary64 (3/10)) \<le> binary64 1"
    using three by (intro binary64_mono) simp
  then have b0: "s0 \<le> 1"
    by (simp add: s0_def binary64_one)
  have "binary64 (s0 - P) \<le> binary64 1"
    using b0 P by (intro binary64_mono) simp
  then have b1: "s1 \<le> 1"
    by (simp add: s1_def binary64_one)
  have "binary64 (s1 - D) \<le> binary64 1"
    using b1 D by (intro binary64_mono) simp
  then have b2: "s2 \<le> 1"
    by (simp add: s2_def binary64_one)
  have "binary64 (s2 + binary64 (1/10)) \<le> T"
    unfolding T_def using b2 by (intro binary64_mono) simp
  moreover have "1 \<le> T"
    unfolding T_def preview_bonus_eval by simp
  ultimately have b3: "s3 \<le> T"
    using b2 by (simp add: s3_def)
  have "binary64 (s3 + binary64 (1/20)) \<le> binary64 (T + binary64 (1/20))"
    using b3 by (intro binary64_mono) simp
  moreover have "binary64 (T + binary64 (1/20)) = maxScore"
    unfolding T_def by (rule maxScore_eval)
  moreover have "T \<le> maxScore"
    unfolding T_def preview_bonus_eval maxScore_def by simp
  ultimately have b4: "s4 \<le> maxScore"
    using b3 by (simp add: s4_def)
  have "max 0 s4 \<le> maxScore"
    using b4 maxScore_above_one by simp
  then show ?thesis
    using score by simp
qed

text \<open>The bounds hold at the sample candidate and seed.\<close>

theorem score_range_witness:
  "popularity close_hit = Some 50 \<and> (0::int) \<le> 50 \<and> (50::int) \<le> 100 \<and>
   popularity seed_track = Some 50 \<and>
   duration_ms close_hit = Some 200000 \<and> duration_ms seed_track = Some 200000 \<and>
   (0::int) < 200000 \<and> safeInteger 200000 \<and>
   (\<exists>v. calculateSimilarityScore asciiLowerCase baseFeatures close_hit seed_track = Num v \<and>
        0 \<le> v \<and> v \<le> maxScore)"
proof -
  have a: "popularity close_hit = Some 50" "duration_ms close_hit = Some 200000"
    by (simp_all add: close_hit_def)
  have b: "popularity seed_track = Some 50" "duration_ms seed_track = Some 200000"
    by (simp_all add: seed_track_def)
  have n: "(0::int) \<le> 50" "(50::int) \<le> 100" "(0::int) < 200000" "safeInteger 200000"
    by (simp_all add: safeInteger_def)
  have "\<exists>v. calculateSimilarityScore asciiLowerCase baseFeatures close_hit seed_track = Num v \<and>
          0 \<le> v \<and> v \<le> maxScore"
    by (rule score_range [OF a(1) n(1) n(2) b(1) n(1) n(2) a(2) b(2) n(3) n(4) n(4)])
  then show ?thesis
    using a b n by blast
qed

text \<open>The score of the sample candidate, whatever the unused first argument.\<close>

lemma sample_score:
  "calculateSimilarityScore asciiLowerCase fs close_hit seed_track = Num maxScore"
proof -
  have a: "popularity close_hit = Some 50" "duration_ms close_hit = Some 200000"
    by (simp_all add: close_hit_def)
  have b: "popularity seed_track = Some 50" "duration_ms seed_track = Some 200000"
    by (simp_all add: seed_track_def)
  have f: "(asciiLowerCase (artist close_hit) = asciiLowerCase (artist seed_track)) = False"
    "hasPreview close_hit = True" "(explicit close_hit = explicit seed_track) = True"
    by (simp_all add: close_hit_def seed_track_def hasPreview_def asciiLowerCase_def
        lower_char_def)
  have n: "(200000::int) \<noteq> 0" "(0::int) \<le> 50" "(50::int) \<le> 100"
    by simp_all
  have "calculateSimilarityScore asciiLowerCase fs close_hit seed_track =
     Num (specified_score False 50 50 200000 200000 True True)"
    using score_is_specified [OF a(1) b(1) a(2) b(2) n(1) n(2) n(3) n(2) n(3),
        of asciiLowerCase fs]
    unfolding f .
  then show ?thesis
    by (simp only: sample_specified_score)
qed

text \<open>
  A candidate by another artist with the seed's popularity, duration and explicit flag
  and with a preview scores 1.1500000000000001, above 1.
\<close>

theorem score_range_counterexample:
  "calculateSimilarityScore asciiLowerCase baseFeatures close_hit seed_track = Num maxScore \<and>
   \<not> maxScore \<le> 1"
  using sample_score [of baseFeatures] maxScore_above_one by simp

section \<open>Properties of deduplication\<close>

lemma filterUnseen_seen:
  "dedupKey toLowerCase t \<in> seen \<Longrightarrow> filterUnseen toLowerCase seen (t # ts) = filterUnseen toLowerCase seen ts"
  by (simp add: Let_def)

lemma filterUnseen_new:
  "dedupKey toLowerCase t \<notin> seen \<Longrightarrow>
     filterUnseen toLowerCase seen (t # ts) = t # filterUnseen toLowerCase (insert (dedupKey toLowerCase t) seen) ts"
  by (simp add: Let_def)

lemma filterUnseen_subseq: "subseq (filterUnseen toLowerCase seen ts) ts"
proof (induction ts arbitrary: seen)
  case Nil
  show ?case by simp
next
  case (Cons t ts)
  show ?case
  proof (cases "dedupKey toLowerCase t \<in> seen")
    case True
    have "subseq (filterUnseen toLowerCase seen ts) (t # ts)"
      by (rule list_emb_Cons) (rule Cons.IH)
    then show ?thesis by (simp only: filterUnseen_seen [OF True])
  next
    case False
    have "subseq (t # filterUnseen toLowerCase (insert (dedupKey toLowerCase t) seen) ts) (t # ts)"
      by (rule subseq_Cons2) (rule Cons.IH)
    then show ?thesis by (simp only: filterUnseen_new [OF False])
  qed
qed

lemma filterUnseen_subset: "set (filterUnseen toLowerCase seen ts) \<subseteq> set ts"
proof (induction ts arbitrary: seen)
  case Nil
  show ?case by simp
next
  case (Cons t ts)
  show ?case
  proof (cases "dedupKey toLowerCase t \<in> seen")
    case True
    show ?thesis
      using Cons.IH [of seen] by (auto simp only: filterUnseen_seen [OF True] set_simps)
  next
    case False
    show ?thesis
      using Cons.IH [of "insert (dedupKey toLowerCase t) seen"]
      by (auto simp only: filterUnseen_new [OF False] set_simps)
  qed
qed

lemma filterUnseen_find:
  "List.find (\<lambda>u. dedupKey toLowerCase u = k) (filterUnseen toLowerCase seen ts) =
     (if k \<in> seen then None else List.find (\<lambda>u. dedupKey toLowerCase u = k) ts)"
proof (induction ts arbitrary: seen)
  case Nil
  show ?case by simp
next
  case (Cons t ts)
  show ?case
  proof (cases "dedupKey toLowerCase t \<in> seen")
    case True
    show ?thesis
      unfolding filterUnseen_seen [OF True] Cons.IH [of seen] using True by auto
  next
    case False
    show ?thesis
      unfolding filterUnseen_new [OF False] find.simps Cons.IH [of "insert (dedupKey toLowerCase t) seen"]
      using False by auto
  qed
qed

lemma filterUnseen_keys:
  "distinct (map (dedupKey toLowerCase) (filterUnseen toLowerCase seen ts)) \<and>
   (\<forall>u \<in> set (filterUnseen toLowerCase seen ts). dedupKey toLowerCase u \<notin> seen)"
proof (induction ts arbitrary: seen)
  case Nil
  show ?case by simp
next
  case (Cons t ts)
  show ?case
  proof (cases "dedupKey toLowerCase t \<in> seen")
    case True
    show ?thesis
      unfolding filterUnseen_seen [OF True] by (rule Cons.IH)
  next
    case False
    let ?rest = "filterUnseen toLowerCase (insert (dedupKey toLowerCase t) seen) ts"
    have d: "distinct (map (dedupKey toLowerCase) ?rest)"
      using Cons.IH [of "insert (dedupKey toLowerCase t) seen"] by (rule conjunct1)
    have n: "\<forall>u \<in> set ?rest. dedupKey toLowerCase u \<notin> insert (dedupKey toLowerCase t) seen"
      using Cons.IH [of "insert (dedupKey toLowerCase t) seen"] by (rule conjunct2)
    have fresh: "dedupKey toLowerCase t \<notin> set (map (dedupKey toLowerCase) ?rest)"
    proof
      assume "dedupKey toLowerCase t \<in> set (map (dedupKey toLowerCase) ?rest)"
      then obtain u where "u \<in> set ?rest" "dedupKey toLowerCase u = dedupKey toLowerCase t"
        by (auto simp only: set_map image_iff)
      with n show False by (metis insertI1)
    qed
    have "distinct (map (dedupKey toLowerCase) (t # ?rest))"
      using d fresh by (simp only: list.map distinct.simps) simp
    moreover have "\<forall>u \<in> set (t # ?rest). dedupKey toLowerCase u \<notin> seen"
    proof
      fix u
      assume "u \<in> set (t # ?rest)"
      then consider "u = t" | "u \<in> set ?rest" by (auto simp only: set_simps)
      then show "dedupKey toLowerCase u \<notin> seen"
      proof cases
        case 1
        then show ?thesis using False by simp
      next
        case 2
        then have "dedupKey toLowerCase u \<notin> insert (dedupKey toLowerCase t) seen" using n by (rule_tac bspec)
        then show ?thesis by (metis insertI2)
      qed
    qed
    ultimately show ?thesis
      unfolding filterUnseen_new [OF False] by (rule conjI)
  qed
qed

lemma same_pair_same_key:
  assumes "titleArtist toLowerCase t = titleArtist toLowerCase u"
  shows "dedupKey toLowerCase t = dedupKey toLowerCase u"
proof -
  have "toLowerCase (name t) = toLowerCase (name u)"
    using assms unfolding titleArtist_def by (rule Pair_inject)
  moreover have "toLowerCase (artist t) = toLowerCase (artist u)"
    using assms unfolding titleArtist_def by (rule Pair_inject)
  ultimately show ?thesis
    unfolding dedupKey_def by (rule arg_cong2 [where f = "\<lambda>a b. a @ ''-'' @ b"])
qed

lemma distinct_pairs:
  "distinct (map (dedupKey toLowerCase) ts) \<Longrightarrow> distinct (map (titleArtist toLowerCase) ts)"
proof (induction ts)
  case Nil
  show ?case by simp
next
  case (Cons t ts)
  have d: "distinct (map (dedupKey toLowerCase) ts)" and n: "dedupKey toLowerCase t \<notin> set (map (dedupKey toLowerCase) ts)"
    using Cons.prems by simp_all
  have "titleArtist toLowerCase t \<notin> set (map (titleArtist toLowerCase) ts)"
  proof
    assume "titleArtist toLowerCase t \<in> set (map (titleArtist toLowerCase) ts)"
    then obtain u where u: "u \<in> set ts" "titleArtist toLowerCase t = titleArtist toLowerCase u"
      by (auto simp only: set_map image_iff)
    have "dedupKey toLowerCase t = dedupKey toLowerCase u"
      using u(2) by (rule same_pair_same_key)
    then have "dedupKey toLowerCase t \<in> set (map (dedupKey toLowerCase) ts)"
      using u(1) by (simp only: set_map image_iff) blast
    with n show False by (rule notE)
  qed
  then show ?case
    using Cons.IH [OF d] by simp
qed

lemma find_cong_on:
  "(\<And>x. x \<in> set xs \<Longrightarrow> P x = Q x) \<Longrightarrow> List.find P xs = List.find Q xs"
  by (induction xs) simp_all

text \<open>For every key of the input, the first candidate with that key is the one kept.\<close>

lemma dedup_first_of_key:
  "List.find (\<lambda>u. dedupKey toLowerCase u = k) (removeDuplicateTracks toLowerCase ts) =
   List.find (\<lambda>u. dedupKey toLowerCase u = k) ts"
  unfolding removeDuplicateTracks_def filterUnseen_find by simp

text \<open>
  What deduplication does for every input: the output is a subsequence of the input,
  no two output entries have the same lower-cased (title, artist), and the first
  occurrence of every (title, artist) is the one kept provided the input holds no two
  candidates with different (title, artist) and the same joined key.
\<close>

lemma dedup_first_occurrence:
  "subseq (removeDuplicateTracks toLowerCase ts) ts \<and>
   distinct (map (titleArtist toLowerCase) (removeDuplicateTracks toLowerCase ts)) \<and>
   ((\<forall>t \<in> set ts. \<forall>u \<in> set ts. dedupKey toLowerCase t = dedupKey toLowerCase u \<longrightarrow> titleArtist toLowerCase t = titleArtist toLowerCase u) \<longrightarrow>
    (\<forall>t \<in> set ts. List.find (\<lambda>u. titleArtist toLowerCase u = titleArtist toLowerCase t) (removeDuplicateTracks toLowerCase ts) =
                    List.find (\<lambda>u. titleArtist toLowerCase u = titleArtist toLowerCase t) ts))"
proof (intro conjI impI ballI)
  show "subseq (removeDuplicateTracks toLowerCase ts) ts"
    unfolding removeDuplicateTracks_def by (rule filterUnseen_subseq)
  have "distinct (map (dedupKey toLowerCase) (filterUnseen toLowerCase {} ts))"
    using filterUnseen_keys [of toLowerCase "{}" ts] by (rule conjunct1)
  then show "distinct (map (titleArtist toLowerCase) (removeDuplicateTracks toLowerCase ts))"
    unfolding removeDuplicateTracks_def by (rule distinct_pairs)
  fix t
  assume inj: "\<forall>t \<in> set ts. \<forall>u \<in> set ts. dedupKey toLowerCase t = dedupKey toLowerCase u \<longrightarrow> titleArtist toLowerCase t = titleArtist toLowerCase u"
    and t: "t \<in> set ts"
  have sub: "set (removeDuplicateTracks toLowerCase ts) \<subseteq> set ts"
    unfolding removeDuplicateTracks_def by (rule filterUnseen_subset)
  have eq: "(titleArtist toLowerCase u = titleArtist toLowerCase t) = (dedupKey toLowerCase u = dedupKey toLowerCase t)" if "u \<in> set ts" for u
  proof
    assume "titleArtist toLowerCase u = titleArtist toLowerCase t"
    then show "dedupKey toLowerCase u = dedupKey toLowerCase t" by (rule same_pair_same_key)
  next
    assume "dedupKey toLowerCase u = dedupKey toLowerCase t"
    then show "titleArtist toLowerCase u = titleArtist toLowerCase t" using inj t that by blast
  qed
  have "List.find (\<lambda>u. titleArtist toLowerCase u = titleArtist toLowerCase t) (removeDuplicateTracks toLowerCase ts) =
        List.find (\<lambda>u. dedupKey toLowerCase u = dedupKey toLowerCase t) (removeDuplicateTracks toLowerCase ts)"
  proof (rule find_cong_on)
    fix x
    assume "x \<in> set (removeDuplicateTracks toLowerCase ts)"
    then have "x \<in> set ts" using sub by (rule subsetD [rotated])
    then show "(titleArtist toLowerCase x = titleArtist toLowerCase t) = (dedupKey toLowerCase x = dedupKey toLowerCase t)" by (rule eq)
  qed
  also have "\<dots> = List.find (\<lambda>u. dedupKey toLowerCase u = dedupKey toLowerCase t) ts"
    by (rule dedup_first_of_key)
  also have "\<dots> = List.find (\<lambda>u. titleArtist toLowerCase u = titleArtist toLowerCase t) ts"
    by (rule find_cong_on) (rule eq [symmetric])
  finally show "List.find (\<lambda>u. titleArtist toLowerCase u = titleArtist toLowerCase t) (removeDuplicateTracks toLowerCase ts) =
        List.find (\<lambda>u. titleArtist toLowerCase u = titleArtist toLowerCase t) ts" .
qed

text \<open>
  C4: deduplication is meant to collapse candidates with identical lower-cased
  (title, artist) and to keep every first occurrence. The key of the code is one string
  joined by a hyphen, and a hyphen inside a title or an artist name makes different
  pairs collide: \<^verbatim>\<open>Stop\<close> by \<^verbatim>\<open>Go-Go\<close> and \<^verbatim>\<open>Stop-Go\<close> by \<^verbatim>\<open>Go\<close> differ in title and in
  artist and share the key \<^verbatim>\<open>stop-go-go\<close>, so the second is dropped although it is the
  first occurrence of its (title, artist).
\<close>

theorem dedup_hyphen_collision:
  "removeDuplicateTracks asciiLowerCase [stop_by_gogo, stopgo_by_go] = [stop_by_gogo] \<and>
   titleArtist asciiLowerCase stopgo_by_go \<noteq> titleArtist asciiLowerCase stop_by_gogo \<and>
   dedupKey asciiLowerCase stopgo_by_go = ''stop-go-go'' \<and>
   dedupKey asciiLowerCase stop_by_gogo = ''stop-go-go''"
  by (simp add: removeDuplicateTracks_def dedupKey_def titleArtist_def stop_by_gogo_def
      stopgo_by_go_def asciiLowerCase_def lower_char_def)

section \<open>Properties of the sort\<close>

text \<open>
  On numeric scores the comparator is positive exactly when the second candidate has
  the larger score (rounding keeps the sign of the difference), so the sort is the
  library's stable insertion sort on the negated score.
\<close>

lemma positive_compare:
  assumes "similarity a \<noteq> NaN" "similarity b \<noteq> NaN"
  shows "positive (compareSimilarity a b) = (\<not> - scoreValue a \<le> - scoreValue b)"
proof -
  obtain x where x: "similarity a = Num x" using assms(1) by (cases "similarity a") simp_all
  obtain y where y: "similarity b = Num y" using assms(2) by (cases "similarity b") simp_all
  show ?thesis
    by (simp add: positive_def compareSimilarity_def scoreValue_def x y not_le
        binary64_positive_iff)
qed

lemma insertStable_insort:
  assumes "similarity a \<noteq> NaN" "\<forall>b \<in> set bs. similarity b \<noteq> NaN"
  shows "insertStable compareSimilarity a bs = insort_key (\<lambda>c. - scoreValue c) a bs"
  using assms(2)
proof (induction bs)
  case Nil
  show ?case by simp
next
  case (Cons b bs)
  have b: "similarity b \<noteq> NaN" using Cons.prems by simp
  have ih: "insertStable compareSimilarity a bs = insort_key (\<lambda>c. - scoreValue c) a bs"
    using Cons.prems by (intro Cons.IH) simp
  show ?case
    using positive_compare [OF assms(1) b] ih by simp
qed

lemma sort_is_sort_key:
  assumes "\<forall>c \<in> set cs. similarity c \<noteq> NaN"
  shows "sortBySimilarity cs = sort_key (\<lambda>c. - scoreValue c) cs"
  using assms
proof (induction cs)
  case Nil
  show ?case by (simp add: sortBySimilarity_def js_sort_def)
next
  case (Cons c cs)
  have ih: "sortBySimilarity cs = sort_key (\<lambda>c. - scoreValue c) cs"
    using Cons.prems by (intro Cons.IH) simp
  have c: "similarity c \<noteq> NaN" using Cons.prems by simp
  have rest: "\<forall>b \<in> set (sort_key (\<lambda>c. - scoreValue c) cs). similarity b \<noteq> NaN"
    using Cons.prems by simp
  have "sortBySimilarity (c # cs) = insertStable compareSimilarity c (sortBySimilarity cs)"
    by (simp add: sortBySimilarity_def js_sort_def)
  also have "\<dots> = insort_key (\<lambda>c. - scoreValue c) c (sort_key (\<lambda>c. - scoreValue c) cs)"
    unfolding ih by (rule insertStable_insort [OF c rest])
  finally show ?case by simp
qed

text \<open>Whatever the comparator answers, the sort rearranges its input.\<close>

lemma set_insertStable: "set (insertStable cmp a bs) = insert a (set bs)"
  by (induction bs) auto

lemma set_js_sort: "set (js_sort cmp xs) = set xs"
  by (induction xs) (simp_all add: js_sort_def set_insertStable)

text \<open>
  On numeric scores the sort is descending and stable, rearranges its input, and
  leaves a sorted list as it is.
\<close>

lemma sort_stable_descending:
  assumes "\<forall>c \<in> set cs. similarity c \<noteq> NaN"
  shows "sorted_wrt (\<lambda>a b. scoreValue a \<ge> scoreValue b) (sortBySimilarity cs) \<and>
         mset (sortBySimilarity cs) = mset cs \<and>
         (\<forall>v. filter (\<lambda>c. scoreValue c = v) (sortBySimilarity cs) =
              filter (\<lambda>c. scoreValue c = v) cs) \<and>
         sortBySimilarity (sortBySimilarity cs) = sortBySimilarity cs"
proof (intro conjI allI)
  let ?f = "\<lambda>c. - scoreValue c"
  note eq = sort_is_sort_key [OF assms]
  have "sorted (map ?f (sort_key ?f cs))" by (rule sorted_sort_key)
  then have "sorted_wrt (\<lambda>a b. ?f a \<le> ?f b) (sort_key ?f cs)"
    by (simp only: sorted_map)
  then show "sorted_wrt (\<lambda>a b. scoreValue a \<ge> scoreValue b) (sortBySimilarity cs)"
    unfolding eq by simp
  show "mset (sortBySimilarity cs) = mset cs"
    unfolding eq by (rule mset_sort)
  show "filter (\<lambda>c. scoreValue c = v) (sortBySimilarity cs) =
        filter (\<lambda>c. scoreValue c = v) cs" for v
  proof -
    have "filter (\<lambda>c. ?f c = - v) (sort_key ?f cs) = filter (\<lambda>c. ?f c = - v) cs"
      by (rule sort_key_stable)
    then show ?thesis unfolding eq by simp
  qed
  have again: "\<forall>c \<in> set (sortBySimilarity cs). similarity c \<noteq> NaN"
    using assms by (simp add: sortBySimilarity_def set_js_sort)
  have "sort_key ?f (sort_key ?f cs) = sort_key ?f cs"
    by (rule sort_key_id_if_sorted) (rule sorted_sort_key)
  then show "sortBySimilarity (sortBySimilarity cs) = sortBySimilarity cs"
    unfolding sort_is_sort_key [OF again] unfolding eq .
qed

section \<open>Properties of the strategy loop\<close>

text \<open>One round of the loop: the hits of the strategy are appended, the trace grows by two.\<close>

lemma runStrategies_step:
  "runStrategies toLowerCase srch fs orig i (s # ss) (acc, tr) =
     runStrategies toLowerCase srch fs orig (i + 1) ss
       (acc @ strategyHits toLowerCase srch fs orig i s,
        tr @ [SearchIssued (query s), SearchSettled (query s)])"
  by (cases "srch i (query s)") (simp_all add: strategyHits_def Let_def)

lemma runStrategies_trace:
  "snd (runStrategies toLowerCase srch fs orig i ss (acc, tr)) = tr @ sequentialTrace ss"
proof (induction ss arbitrary: i acc tr)
  case Nil
  show ?case by simp
next
  case (Cons s ss)
  show ?case
    unfolding runStrategies_step Cons.IH by simp
qed

text \<open>
  The candidates that the loop collects are the hits of the strategies, in the order
  of the strategies.
\<close>

lemma runStrategies_merged:
  "fst (runStrategies toLowerCase srch fs orig i ss (acc, tr)) =
     acc @ mergedHits toLowerCase srch fs orig i ss"
proof (induction ss arbitrary: i acc tr)
  case Nil
  show ?case by simp
next
  case (Cons s ss)
  show ?case
    unfolding runStrategies_step Cons.IH by simp
qed

lemma mergedHits_concat:
  "mergedHits toLowerCase srch fs orig i ss =
     concat (map (\<lambda>(j, s). strategyHits toLowerCase srch fs orig j s) (enumerate i ss))"
  by (induction ss arbitrary: i) simp_all

lemma strategyHits_absorb:
  "strategyHits toLowerCase (absorbFailures srch) fs orig i s =
   strategyHits toLowerCase srch fs orig i s"
  by (cases "srch i (query s)") (simp_all add: strategyHits_def absorbFailures_def failed_def)

lemma runStrategies_absorb:
  "runStrategies toLowerCase (absorbFailures srch) fs orig i ss st =
   runStrategies toLowerCase srch fs orig i ss st"
proof (induction ss arbitrary: i st)
  case Nil
  show ?case by simp
next
  case (Cons s ss)
  obtain acc tr where st: "st = (acc, tr)" by (cases st)
  show ?case
    unfolding st runStrategies_step strategyHits_absorb by (rule Cons.IH)
qed

lemma strategyHits_failed:
  "failed (srch i (query s)) \<Longrightarrow> strategyHits toLowerCase srch fs orig i s = []"
  by (cases "srch i (query s)") (simp_all add: strategyHits_def failed_def)

lemma mergedHits_all_failed:
  assumes "\<forall>i q. failed (srch i q)"
  shows "mergedHits toLowerCase srch fs orig i ss = []"
proof (induction ss arbitrary: i)
  case Nil
  show ?case by simp
next
  case (Cons s ss)
  have "strategyHits toLowerCase srch fs orig i s = []"
    using assms by (intro strategyHits_failed) blast
  then show ?case
    using Cons.IH by simp
qed

lemma strategyHits_no_seed:
  "c \<in> set (strategyHits toLowerCase srch fs orig i s) \<Longrightarrow> track_id c \<noteq> track_id orig"
  by (cases "srch i (query s)") (auto simp: strategyHits_def annotate_def)

lemma mergedHits_no_seed:
  "\<forall>c \<in> set (mergedHits toLowerCase srch fs orig i ss). track_id c \<noteq> track_id orig"
proof (induction ss arbitrary: i)
  case Nil
  show ?case by simp
next
  case (Cons s ss)
  show ?case
    using Cons.IH [of "i + 1"] strategyHits_no_seed [of _ toLowerCase srch fs orig i s]
    by auto
qed

text \<open>
  The result for a seed with an album: the first ten of the sorted, deduplicated
  merged list, and the sequential trace of the strategies.
\<close>

lemma findSimilar_with_album:
  assumes "track_album orig = Some alb"
  shows "findSimilarTracksViaSpotify toLowerCase srch orig fs =
     Inr (take 10 (sortBySimilarity (removeDuplicateTracks toLowerCase
            (mergedCandidates toLowerCase srch orig alb fs))),
          sequentialTrace (searchStrategies orig alb fs))"
proof -
  let ?run = "runStrategies toLowerCase srch fs orig 0 (searchStrategies orig alb fs) ([], [])"
  have t: "snd ?run = sequentialTrace (searchStrategies orig alb fs)"
    unfolding runStrategies_trace by simp
  have c: "fst ?run = mergedCandidates toLowerCase srch orig alb fs"
    unfolding runStrategies_merged mergedCandidates_def by simp
  show ?thesis
    using t c by (simp add: findSimilarTracksViaSpotify_def assms Let_def split_beta)
qed

lemma findSimilar_without_album:
  "track_album orig = None \<Longrightarrow>
   findSimilarTracksViaSpotify toLowerCase srch orig fs = Inl TypeError"
  by (simp add: findSimilarTracksViaSpotify_def)

lemma findSimilar_absorb:
  "findSimilarTracksViaSpotify toLowerCase (absorbFailures srch) orig fs =
   findSimilarTracksViaSpotify toLowerCase srch orig fs"
  by (cases "track_album orig")
    (simp_all add: findSimilarTracksViaSpotify_def runStrategies_absorb Let_def)

lemma findSimilar_all_failed:
  assumes "track_album orig = Some alb" "\<forall>i q. failed (srch i q)"
  shows "resultTracks (findSimilarTracksViaSpotify toLowerCase srch orig fs) = []"
  unfolding findSimilar_with_album [OF assms(1)] mergedCandidates_def
    mergedHits_all_failed [OF assms(2)]
  by (simp add: resultTracks_def removeDuplicateTracks_def sortBySimilarity_def js_sort_def)

lemma findSimilar_no_seed:
  "\<forall>c \<in> set (resultTracks (findSimilarTracksViaSpotify toLowerCase srch orig fs)).
     track_id c \<noteq> track_id orig"
proof (cases "track_album orig")
  case None
  then show ?thesis
    by (simp add: findSimilarTracksViaSpotify_def resultTracks_def)
next
  case (Some alb)
  let ?all = "mergedCandidates toLowerCase srch orig alb fs"
  have all: "\<forall>c \<in> set ?all. track_id c \<noteq> track_id orig"
    unfolding mergedCandidates_def by (rule mergedHits_no_seed)
  have "set (take 10 (sortBySimilarity (removeDuplicateTracks toLowerCase ?all))) \<subseteq> set ?all"
  proof -
    have "set (take 10 (sortBySimilarity (removeDuplicateTracks toLowerCase ?all)))
            \<subseteq> set (sortBySimilarity (removeDuplicateTracks toLowerCase ?all))"
      by (rule set_take_subset)
    also have "\<dots> = set (removeDuplicateTracks toLowerCase ?all)"
      unfolding sortBySimilarity_def by (rule set_js_sort)
    also have "\<dots> \<subseteq> set ?all"
      unfolding removeDuplicateTracks_def by (rule filterUnseen_subset)
    finally show ?thesis .
  qed
  then show ?thesis
    unfolding findSimilar_with_album [OF Some] resultTracks_def using all by auto
qed

lemma strategies_at_least_two:
  "\<exists>s1 s2 rest. searchStrategies orig alb fs = s1 # s2 # rest"
  by (simp add: searchStrategies_def Let_def)

lemma sequential_not_fanned_out: "\<not> fannedOut (sequentialTrace (s1 # s2 # rest))"
  by simp

section \<open>The sample catalog\<close>

text \<open>
  The seed has a release year, so five strategies run. Only the first search of the
  sample catalog delivers items; the seed among them is filtered out and the two
  others score 1.1500000000000001.
\<close>

lemma sample_strategies:
  "\<exists>q1 s2 s3 s4 s5. searchStrategies seed_track
      \<lparr> album_name = ''Skies'', release_date = Some ''1999-05-01'' \<rparr> fs =
      [\<lparr> query = q1, description = ''Similar genre, different artist'' \<rparr>, s2, s3, s4, s5]"
  by (simp add: searchStrategies_def seed_track_def Let_def)

lemma sample_album:
  "track_album seed_track = Some \<lparr> album_name = ''Skies'', release_date = Some ''1999-05-01'' \<rparr>"
  by (simp add: seed_track_def)

lemma sample_score_other:
  "calculateSimilarityScore asciiLowerCase fs other_hit seed_track = Num maxScore"
proof -
  have a: "popularity other_hit = Some 50" "duration_ms other_hit = Some 200000"
    by (simp_all add: other_hit_def)
  have b: "popularity seed_track = Some 50" "duration_ms seed_track = Some 200000"
    by (simp_all add: seed_track_def)
  have f: "(asciiLowerCase (artist other_hit) = asciiLowerCase (artist seed_track)) = False"
    "hasPreview other_hit = True" "(explicit other_hit = explicit seed_track) = True"
    by (simp_all add: other_hit_def seed_track_def hasPreview_def asciiLowerCase_def
        lower_char_def)
  have n: "(200000::int) \<noteq> 0" "(0::int) \<le> 50" "(50::int) \<le> 100"
    by simp_all
  have "calculateSimilarityScore asciiLowerCase fs other_hit seed_track =
     Num (specified_score False 50 50 200000 200000 True True)"
    using score_is_specified [OF a(1) b(1) a(2) b(2) n(1) n(2) n(3) n(2) n(3),
        of asciiLowerCase fs]
    unfolding f .
  then show ?thesis
    by (simp only: sample_specified_score)
qed

lemma sample_merged:
  "mergedCandidates asciiLowerCase sample_search seed_track
      \<lparr> album_name = ''Skies'', release_date = Some ''1999-05-01'' \<rparr> fs =
     [scored_t1, scored_t0]"
proof -
  obtain q1 s2 s3 s4 s5 where s: "searchStrategies seed_track
      \<lparr> album_name = ''Skies'', release_date = Some ''1999-05-01'' \<rparr> fs =
      [\<lparr> query = q1, description = ''Similar genre, different artist'' \<rparr>, s2, s3, s4, s5]"
    using sample_strategies by blast
  have ids: "track_id seed_track = ''seed''" "track_id close_hit = ''t1''"
    "track_id other_hit = ''t0''"
    by (simp_all add: seed_track_def close_hit_def other_hit_def)
  have h0: "strategyHits asciiLowerCase sample_search fs seed_track 0
              \<lparr> query = q1, description = ''Similar genre, different artist'' \<rparr> =
            [scored_t1, scored_t0]"
    by (simp add: strategyHits_def sample_search_def ids sample_score sample_score_other
        scored_t1_def scored_t0_def)
  have h: "strategyHits asciiLowerCase sample_search fs seed_track (Suc n) st = []" for n st
    by (simp add: strategyHits_def sample_search_def)
  show ?thesis
    unfolding mergedCandidates_def s by (simp add: h0 h)
qed

lemma sample_result:
  "resultTracks (findSimilarTracksViaSpotify asciiLowerCase sample_search seed_track fs) =
     [scored_t1, scored_t0]"
proof -
  have k: "dedupKey asciiLowerCase scored_t1 \<noteq> dedupKey asciiLowerCase scored_t0"
    by (simp add: dedupKey_def scored_t1_def scored_t0_def annotate_def close_hit_def
        other_hit_def asciiLowerCase_def lower_char_def)
  have d: "removeDuplicateTracks asciiLowerCase [scored_t1, scored_t0] = [scored_t1, scored_t0]"
    using k by (simp add: removeDuplicateTracks_def Let_def)
  have o: "sortBySimilarity [scored_t1, scored_t0] = [scored_t1, scored_t0]"
    by (simp add: sortBySimilarity_def js_sort_def compareSimilarity_def positive_def
        scored_t1_def scored_t0_def annotate_def binary64_zero)
  show ?thesis
    unfolding findSimilar_with_album [OF sample_album] sample_merged d o
    by (simp add: resultTracks_def)
qed

lemma sample_trace_length:
  "length (resultTrace (findSimilarTracksViaSpotify asciiLowerCase sample_search seed_track fs))
     = 10"
proof -
  obtain q1 s2 s3 s4 s5 where s: "searchStrategies seed_track
      \<lparr> album_name = ''Skies'', release_date = Some ''1999-05-01'' \<rparr> fs =
      [\<lparr> query = q1, description = ''Similar genre, different artist'' \<rparr>, s2, s3, s4, s5]"
    using sample_strategies by blast
  show ?thesis
    unfolding findSimilar_with_album [OF sample_album] s by (simp add: resultTrace_def)
qed

section \<open>Properties of the aggregation\<close>

text \<open>
  C6: for every seed track and every behaviour of the catalog, no candidate returned
  by \<^verbatim>\<open>findSimilarTracksViaSpotify\<close> has the identifier of the seed track, whatever the
  searches deliver.
\<close>

theorem seed_excluded:
  "\<forall>c \<in> set (resultTracks (findSimilarTracksViaSpotify toLowerCase srch orig fs)).
     track_id c \<noteq> track_id orig"
proof
  fix c
  assume "c \<in> set (resultTracks (findSimilarTracksViaSpotify toLowerCase srch orig fs))"
  with findSimilar_no_seed [of toLowerCase srch orig fs]
  show "track_id c \<noteq> track_id orig" by (rule bspec)
qed

text \<open>
  The first search of the sample catalog delivers the seed itself; the result holds
  the two other tracks only.
\<close>

theorem seed_excluded_witness:
  "sample_search 0 ''q'' = Items [seed_track, close_hit, other_hit] \<and>
   map track_id (resultTracks
      (findSimilarTracksViaSpotify asciiLowerCase sample_search seed_track baseFeatures)) =
     [''t1'', ''t0''] \<and>
   track_id seed_track \<notin>
     set (map track_id (resultTracks
            (findSimilarTracksViaSpotify asciiLowerCase sample_search seed_track baseFeatures)))"
proof -
  have "track_id seed_track \<notin>
     set (map track_id (resultTracks
            (findSimilarTracksViaSpotify asciiLowerCase sample_search seed_track baseFeatures)))"
    using seed_excluded [of asciiLowerCase sample_search seed_track baseFeatures] by auto
  moreover have "map track_id (resultTracks
      (findSimilarTracksViaSpotify asciiLowerCase sample_search seed_track baseFeatures)) =
     [''t1'', ''t0'']"
    unfolding sample_result
    by (simp add: scored_t1_def scored_t0_def annotate_def close_hit_def other_hit_def)
  ultimately show ?thesis
    by (simp add: sample_search_def)
qed

text \<open>
  C5, as the code has it: for a seed with an album and candidates with numeric
  scores, the returned list is the first ten of a ranking of the deduplicated
  candidates that is descending by similarity score and stable: candidates of equal
  score keep the order they have in the deduplicated list, which is a subsequence of
  the merged list, and the merged list is the concatenation, in the order of the
  strategies, of each strategy's hits (the catalog's answer without the seed, in the
  catalog's order). Neither a strategy ordinal nor the identifier is compared.
\<close>

theorem ranking_in_merged_order:
  assumes "track_album orig = Some alb"
    and "\<forall>c \<in> set (mergedCandidates toLowerCase srch orig alb fs). similarity c \<noteq> NaN"
  shows "\<exists>ranked.
     resultTracks (findSimilarTracksViaSpotify toLowerCase srch orig fs) = take 10 ranked \<and>
     sorted_wrt (\<lambda>a b. scoreValue a \<ge> scoreValue b) ranked \<and>
     mset ranked =
       mset (removeDuplicateTracks toLowerCase (mergedCandidates toLowerCase srch orig alb fs)) \<and>
     (\<forall>v. filter (\<lambda>c. scoreValue c = v) ranked =
          filter (\<lambda>c. scoreValue c = v)
            (removeDuplicateTracks toLowerCase (mergedCandidates toLowerCase srch orig alb fs))) \<and>
     subseq (removeDuplicateTracks toLowerCase (mergedCandidates toLowerCase srch orig alb fs))
       (mergedCandidates toLowerCase srch orig alb fs) \<and>
     mergedCandidates toLowerCase srch orig alb fs =
       concat (map (\<lambda>(j, s). strategyHits toLowerCase srch fs orig j s)
                 (enumerate 0 (searchStrategies orig alb fs)))"
proof -
  let ?merged = "mergedCandidates toLowerCase srch orig alb fs"
  let ?unique = "removeDuplicateTracks toLowerCase ?merged"
  have "set ?unique \<subseteq> set ?merged"
    unfolding removeDuplicateTracks_def by (rule filterUnseen_subset)
  then have numeric: "\<forall>c \<in> set ?unique. similarity c \<noteq> NaN"
    using assms(2) by blast
  have r: "resultTracks (findSimilarTracksViaSpotify toLowerCase srch orig fs) =
           take 10 (sortBySimilarity ?unique)"
    unfolding findSimilar_with_album [OF assms(1)] by (simp add: resultTracks_def)
  have s: "subseq ?unique ?merged"
    unfolding removeDuplicateTracks_def by (rule filterUnseen_subseq)
  have m: "?merged = concat (map (\<lambda>(j, s). strategyHits toLowerCase srch fs orig j s)
                               (enumerate 0 (searchStrategies orig alb fs)))"
    unfolding mergedCandidates_def by (rule mergedHits_concat)
  show ?thesis
    using r s m sort_stable_descending [OF numeric] by blast
qed

text \<open>
  The sample seed: the merged list is the two scored hits, both numeric, and the
  ranking exists.
\<close>

theorem ranking_in_merged_order_witness:
  "track_album seed_track =
     Some \<lparr> album_name = ''Skies'', release_date = Some ''1999-05-01'' \<rparr> \<and>
   mergedCandidates asciiLowerCase sample_search seed_track
      \<lparr> album_name = ''Skies'', release_date = Some ''1999-05-01'' \<rparr> baseFeatures =
     [scored_t1, scored_t0] \<and>
   similarity scored_t1 \<noteq> NaN \<and> similarity scored_t0 \<noteq> NaN \<and>
   (\<exists>ranked.
     resultTracks (findSimilarTracksViaSpotify asciiLowerCase sample_search seed_track
        baseFeatures) = take 10 ranked \<and>
     sorted_wrt (\<lambda>a b. scoreValue a \<ge> scoreValue b) ranked \<and>
     (\<forall>v. filter (\<lambda>c. scoreValue c = v) ranked =
          filter (\<lambda>c. scoreValue c = v)
            (removeDuplicateTracks asciiLowerCase [scored_t1, scored_t0])))"
proof -
  note m = sample_merged [of baseFeatures]
  have s: "similarity scored_t1 \<noteq> NaN" "similarity scored_t0 \<noteq> NaN"
    by (simp_all add: scored_t1_def scored_t0_def annotate_def)
  then have n: "\<forall>c \<in> set (mergedCandidates asciiLowerCase sample_search seed_track
      \<lparr> album_name = ''Skies'', release_date = Some ''1999-05-01'' \<rparr> baseFeatures).
      similarity c \<noteq> NaN"
    unfolding m by simp
  have "\<exists>ranked.
     resultTracks (findSimilarTracksViaSpotify asciiLowerCase sample_search seed_track
        baseFeatures) = take 10 ranked \<and>
     sorted_wrt (\<lambda>a b. scoreValue a \<ge> scoreValue b) ranked \<and>
     (\<forall>v. filter (\<lambda>c. scoreValue c = v) ranked =
          filter (\<lambda>c. scoreValue c = v)
            (removeDuplicateTracks asciiLowerCase [scored_t1, scored_t0]))"
    using ranking_in_merged_order [OF sample_album n] unfolding m by blast
  then show ?thesis
    using sample_album m s by blast
qed

text \<open>
  Two candidates of the same strategy with equal scores, delivered as \<^verbatim>\<open>t1\<close> before
  \<^verbatim>\<open>t0\<close>: the ranking leaves \<^verbatim>\<open>t1\<close> first, where ascending identifiers would put \<^verbatim>\<open>t0\<close>
  first.
\<close>

theorem ranking_counterexample:
  "map track_id (resultTracks
      (findSimilarTracksViaSpotify asciiLowerCase sample_search seed_track baseFeatures)) =
     [''t1'', ''t0''] \<and>
   map similarity (resultTracks
      (findSimilarTracksViaSpotify asciiLowerCase sample_search seed_track baseFeatures)) =
     [Num maxScore, Num maxScore] \<and>
   map strategy_label (resultTracks
      (findSimilarTracksViaSpotify asciiLowerCase sample_search seed_track baseFeatures)) =
     [''Similar genre, different artist'', ''Similar genre, different artist'']"
  unfolding sample_result
  by (simp add: scored_t1_def scored_t0_def annotate_def close_hit_def other_hit_def)

text \<open>
  C9, as the code has it: the searches of one call are issued one after the other in
  the order of the strategies, each only when the one before it has settled, and all
  have settled when deduplication and sorting begin. There are always at least two
  strategies, so the searches are never all issued before the first one settles.
\<close>

theorem searches_sequential:
  assumes "track_album orig = Some alb"
  shows "resultTrace (findSimilarTracksViaSpotify toLowerCase srch orig fs) =
           sequentialTrace (searchStrategies orig alb fs) \<and>
         \<not> fannedOut (resultTrace (findSimilarTracksViaSpotify toLowerCase srch orig fs))"
proof -
  obtain s1 s2 rest where s: "searchStrategies orig alb fs = s1 # s2 # rest"
    using strategies_at_least_two by blast
  have t: "resultTrace (findSimilarTracksViaSpotify toLowerCase srch orig fs) =
           sequentialTrace (searchStrategies orig alb fs)"
    unfolding findSimilar_with_album [OF assms] by (simp add: resultTrace_def)
  have "\<not> fannedOut (sequentialTrace (searchStrategies orig alb fs))"
    unfolding s by (rule sequential_not_fanned_out)
  then show ?thesis
    using t by simp
qed

text \<open>The trace of the sample seed is the sequential trace of its strategies.\<close>

theorem searches_sequential_witness:
  "track_album seed_track = Some \<lparr> album_name = ''Skies'', release_date = Some ''1999-05-01'' \<rparr> \<and>
   resultTrace (findSimilarTracksViaSpotify asciiLowerCase sample_search seed_track baseFeatures) =
     sequentialTrace (searchStrategies seed_track
        \<lparr> album_name = ''Skies'', release_date = Some ''1999-05-01'' \<rparr> baseFeatures)"
  using searches_sequential [OF sample_album, of asciiLowerCase sample_search baseFeatures]
    sample_album by blast

text \<open>
  On the sample catalog the second search is issued after the first has settled: the
  trace is not that of a fan-out.
\<close>

theorem searches_counterexample:
  "\<not> fannedOut (resultTrace (findSimilarTracksViaSpotify asciiLowerCase sample_search seed_track
        (getIntelligentFeatures asciiLowerCase random_half seed_track)))"
proof -
  obtain s1 s2 rest where s: "searchStrategies seed_track
      \<lparr> album_name = ''Skies'', release_date = Some ''1999-05-01'' \<rparr>
      (getIntelligentFeatures asciiLowerCase random_half seed_track) = s1 # s2 # rest"
    using strategies_at_least_two by blast
  show ?thesis
    unfolding findSimilar_with_album [OF sample_album] s
    by (simp add: resultTrace_def)
qed

section \<open>Properties of the routes\<close>

text \<open>A cached token is returned without a request.\<close>

lemma getSpotifyToken_cached:
  "spotifyAccessToken st \<noteq> [] \<Longrightarrow> checkedAt clk < tokenExpiryTime st - 300000 \<Longrightarrow>
   getSpotifyToken st clk answer = (Some (spotifyAccessToken st), st, [])"
  by (simp add: getSpotifyToken_def)

text \<open>
  The similar-song route when a token is at hand, the track response is \<^verbatim>\<open>ok\<close> and the
  track carries an album: status 200 with the aggregation's result, whatever the
  searches do.
\<close>

lemma similarSong_with_seed:
  assumes "getSpotifyToken st clk (tokenEndpoint cat) = (Some tok, st', tr)"
    and "fetchTrack cat trackId = TrackOk trk" "track_album trk = Some alb"
  shows "similarSong toLowerCase cat st clk random trackId =
     \<lparr> response = Status200
         \<lparr> originalTrack = (track_id trk, name trk, artist trk, album_name alb),
           audioFeatures = getIntelligentFeatures toLowerCase random trk,
           similarTracks = take 5 (resultTracks (findSimilarTracksViaSpotify toLowerCase
                                     (search cat) trk
                                     (getIntelligentFeatures toLowerCase random trk))),
           allSimilarTracks = resultTracks (findSimilarTracksViaSpotify toLowerCase
                                     (search cat) trk
                                     (getIntelligentFeatures toLowerCase random trk)) \<rparr>,
       requests = tr @ TrackRequested trackId #
         sequentialTrace (searchStrategies trk alb
            (getIntelligentFeatures toLowerCase random trk)),
       tokens = st' \<rparr>"
proof -
  note r = findSimilar_with_album [OF assms(3), of toLowerCase "search cat"
      "getIntelligentFeatures toLowerCase random trk"]
  show ?thesis
    by (simp add: similarSong_def assms r resultTracks_def Let_def)
qed

text \<open>
  A search that is rejected, not \<^verbatim>\<open>ok\<close> or malformed counts for exactly as much as a
  search that delivers no items, and with every search failing both lists are empty.
\<close>

lemma similarSong_absorbs_failures:
  assumes "getSpotifyToken st clk (tokenEndpoint cat) = (Some tok, st', tr)"
    and "fetchTrack cat trackId = TrackOk trk" "track_album trk = Some alb"
  shows "similarSong toLowerCase (cat\<lparr> search := absorbFailures (search cat) \<rparr>) st clk random
            trackId =
         similarSong toLowerCase cat st clk random trackId"
proof -
  let ?cat = "cat\<lparr> search := absorbFailures (search cat) \<rparr>"
  have a: "getSpotifyToken st clk (tokenEndpoint ?cat) = (Some tok, st', tr)"
    "fetchTrack ?cat trackId = TrackOk trk"
    using assms(1,2) by simp_all
  show ?thesis
    unfolding similarSong_with_seed [OF a assms(3)] similarSong_with_seed [OF assms]
    by (simp add: findSimilar_absorb)
qed

lemma similarSong_all_failed:
  assumes "getSpotifyToken st clk (tokenEndpoint cat) = (Some tok, st', tr)"
    and "fetchTrack cat trackId = TrackOk trk" "track_album trk = Some alb"
    and "\<forall>i q. failed (search cat i q)"
  shows "\<exists>found. response (similarSong toLowerCase cat st clk random trackId) = Status200 found \<and>
           similarTracks found = [] \<and> allSimilarTracks found = []"
  unfolding similarSong_with_seed [OF assms(1-3)]
  by (simp add: findSimilar_all_failed [OF assms(3,4)])

text \<open>Without a token, or without an \<^verbatim>\<open>ok\<close> track response, the call ends with status 500.\<close>

lemma similarSong_seed_failure:
  assumes "fst (getSpotifyToken st clk (tokenEndpoint cat)) = None \<or>
           (\<forall>trk. fetchTrack cat trackId \<noteq> TrackOk trk)"
  shows "response (similarSong toLowerCase cat st clk random trackId) =
           Status500 ''Failed to find similar song''"
proof -
  obtain tok st' tr where g: "getSpotifyToken st clk (tokenEndpoint cat) = (tok, st', tr)"
    by (cases "getSpotifyToken st clk (tokenEndpoint cat)")
  show ?thesis
  proof (cases tok)
    case None
    then show ?thesis by (simp add: similarSong_def g)
  next
    case (Some t)
    then have "\<forall>trk. fetchTrack cat trackId \<noteq> TrackOk trk"
      using assms g by simp
    then show ?thesis
      by (cases "fetchTrack cat trackId") (simp_all add: similarSong_def g Some Let_def)
  qed
qed

text \<open>
  C7: a failed strategy query contributes no candidates and never surfaces, and only
  a failure to fetch the seed track is fatal. The code meets the first part when the
  seed carries an album (the three lemmas above). It departs from the second: a seed
  that is fetched with status \<^verbatim>\<open>ok\<close> but has no album, which the estimator accepts
  through \<^verbatim>\<open>album?.name\<close>, makes \<^verbatim>\<open>findSimilarTracksViaSpotify\<close> throw at
  \<^verbatim>\<open>originalTrack.album.name\<close>, and the call ends with status 500 before any search.
\<close>

theorem album_less_seed_fatal:
  "getSpotifyToken cold_tokens sample_clock (tokenEndpoint bare_catalog) =
     (Some ''tok'', \<lparr> spotifyAccessToken = ''tok'', tokenExpiryTime = 3601001 \<rparr>,
      [TokenRequested]) \<and>
   fetchTrack bare_catalog ''seed'' = TrackOk bare_seed \<and>
   track_album bare_seed = None \<and>
   response (similarSong asciiLowerCase bare_catalog cold_tokens sample_clock random_half
               ''seed'') = Status500 ''Failed to find similar song'' \<and>
   requests (similarSong asciiLowerCase bare_catalog cold_tokens sample_clock random_half
               ''seed'') = [TokenRequested, TrackRequested ''seed'']"
proof -
  have g: "getSpotifyToken cold_tokens sample_clock (tokenEndpoint bare_catalog) =
     (Some ''tok'', \<lparr> spotifyAccessToken = ''tok'', tokenExpiryTime = 3601001 \<rparr>,
      [TokenRequested])"
    by (simp add: getSpotifyToken_def cold_tokens_def sample_clock_def bare_catalog_def)
  have f: "fetchTrack bare_catalog ''seed'' = TrackOk bare_seed"
    by (simp add: bare_catalog_def bare_fetch_def)
  have a: "track_album bare_seed = None"
    by (simp add: bare_seed_def)
  have t: "findSimilarTracksViaSpotify asciiLowerCase (search bare_catalog) bare_seed
             (getIntelligentFeatures asciiLowerCase random_half bare_seed) = Inl TypeError"
    using a by (rule findSimilar_without_album)
  have "similarSong asciiLowerCase bare_catalog cold_tokens sample_clock random_half ''seed'' =
     \<lparr> response = Status500 ''Failed to find similar song'',
       requests = [TokenRequested, TrackRequested ''seed''],
       tokens = \<lparr> spotifyAccessToken = ''tok'', tokenExpiryTime = 3601001 \<rparr> \<rparr>"
    by (simp add: similarSong_def g f t Let_def)
  then show ?thesis
    using g f a by simp
qed

text \<open>
  The recommendations route for a non-empty \<^verbatim>\<open>seed_tracks\<close>: it is never rejected with
  status 400, whatever the limit.
\<close>

lemma recommendations_not_rejected:
  assumes "seed \<noteq> []"
  shows "response (recommendations toLowerCase cat st clk random (Some seed) limit_param)
           \<noteq> Status400 m"
proof -
  obtain tok st' tr where g: "getSpotifyToken st clk (tokenEndpoint cat) = (tok, st', tr)"
    by (cases "getSpotifyToken st clk (tokenEndpoint cat)")
  show ?thesis
    using assms
    by (simp add: recommendations_def g Let_def
        split: option.splits track_response.splits sum.splits prod.splits)
qed

lemma recommendations_with_seed:
  assumes "seed \<noteq> []"
    and "getSpotifyToken st clk (tokenEndpoint cat) = (Some tok, st', tr)"
    and "fetchTrack cat seed = TrackOk trk" "track_album trk = Some alb"
  shows "recommendations toLowerCase cat st clk random (Some seed) limit_param =
     \<lparr> response = Status200
         (slice0 (min (case limit_param of None \<Rightarrow> 9 | Some l \<Rightarrow> l)
                      (int (length (resultTracks (findSimilarTracksViaSpotify toLowerCase
                          (search cat) trk (getIntelligentFeatures toLowerCase random trk))))))
            (resultTracks (findSimilarTracksViaSpotify toLowerCase (search cat) trk
                (getIntelligentFeatures toLowerCase random trk)))),
       requests = tr @ TrackRequested seed #
         sequentialTrace (searchStrategies trk alb
            (getIntelligentFeatures toLowerCase random trk)),
       tokens = st' \<rparr>"
proof -
  note r = findSimilar_with_album [OF assms(4), of toLowerCase "search cat"
      "getIntelligentFeatures toLowerCase random trk"]
  show ?thesis
    by (simp add: recommendations_def assms r resultTracks_def Let_def)
qed

text \<open>
  C8, as the code has it: a request whose \<^verbatim>\<open>limit\<close> is less than 1 is not rejected;
  no count is validated anywhere. With a non-empty \<^verbatim>\<open>seed_tracks\<close> the answer is never
  status 400. With a limit of 0, once a token is at hand and the seed is fetched, the
  call requests the track, runs every strategy query and answers with status 200 and
  the empty list.
\<close>

theorem small_limit_not_rejected:
  assumes "seed \<noteq> []" "l < 1"
  shows "(\<forall>m. response (recommendations toLowerCase cat st clk random (Some seed) (Some l))
              \<noteq> Status400 m) \<and>
         (l = 0 \<and> getSpotifyToken st clk (tokenEndpoint cat) = (Some tok, st', tr) \<and>
          fetchTrack cat seed = TrackOk trk \<and> track_album trk = Some alb \<longrightarrow>
          response (recommendations toLowerCase cat st clk random (Some seed) (Some l)) =
            Status200 [] \<and>
          requests (recommendations toLowerCase cat st clk random (Some seed) (Some l)) =
            tr @ TrackRequested seed #
              sequentialTrace (searchStrategies trk alb
                 (getIntelligentFeatures toLowerCase random trk)))"
proof (intro conjI allI impI)
  fix m
  show "response (recommendations toLowerCase cat st clk random (Some seed) (Some l))
          \<noteq> Status400 m"
    using assms(1) by (rule recommendations_not_rejected)
next
  assume h: "l = 0 \<and> getSpotifyToken st clk (tokenEndpoint cat) = (Some tok, st', tr) \<and>
          fetchTrack cat seed = TrackOk trk \<and> track_album trk = Some alb"
  then have g: "getSpotifyToken st clk (tokenEndpoint cat) = (Some tok, st', tr)"
    and f: "fetchTrack cat seed = TrackOk trk" and a: "track_album trk = Some alb"
    and l: "l = 0"
    by simp_all
  show "response (recommendations toLowerCase cat st clk random (Some seed) (Some l)) =
          Status200 []"
    unfolding recommendations_with_seed [OF assms(1) g f a] l by (simp add: slice0_def)
  show "requests (recommendations toLowerCase cat st clk random (Some seed) (Some l)) =
          tr @ TrackRequested seed #
            sequentialTrace (searchStrategies trk alb
               (getIntelligentFeatures toLowerCase random trk))"
    unfolding recommendations_with_seed [OF assms(1) g f a] by simp
qed

text \<open>
  A limit of 0 on the sample catalog, on a server without a token: status 200 with an
  empty list, after the token request, the track request and five searches.
\<close>

theorem small_limit_counterexample:
  "response (recommendations asciiLowerCase sample_catalog cold_tokens sample_clock random_half
               (Some ''seed'') (Some 0)) = Status200 [] \<and>
   length (requests (recommendations asciiLowerCase sample_catalog cold_tokens sample_clock
               random_half (Some ''seed'') (Some 0))) = 12"
proof -
  have g: "getSpotifyToken cold_tokens sample_clock (tokenEndpoint sample_catalog) =
     (Some ''tok'', \<lparr> spotifyAccessToken = ''tok'', tokenExpiryTime = 3601001 \<rparr>,
      [TokenRequested])"
    by (simp add: getSpotifyToken_def cold_tokens_def sample_clock_def sample_catalog_def)
  have f: "fetchTrack sample_catalog ''seed'' = TrackOk seed_track"
    by (simp add: sample_catalog_def sample_fetch_def)
  have s: "''seed'' \<noteq> []" by simp
  have n: "length (sequentialTrace (searchStrategies seed_track
      \<lparr> album_name = ''Skies'', release_date = Some ''1999-05-01'' \<rparr>
      (getIntelligentFeatures asciiLowerCase random_half seed_track))) = 10"
    using sample_trace_length [of "getIntelligentFeatures asciiLowerCase random_half seed_track"]
    unfolding findSimilar_with_album [OF sample_album] by (simp add: resultTrace_def)
  show ?thesis
    unfolding recommendations_with_seed [OF s g f sample_album]
    using n by (simp add: slice0_def)
qed

text \<open>
  The same request on a server that holds a fresh token: it is not rejected, no token
  is requested, and the answer is status 200 with an empty list after the track
  request and five searches.
\<close>

theorem small_limit_not_rejected_witness:
  "''seed'' \<noteq> [] \<and> (0::int) < 1 \<and>
   getSpotifyToken warm_tokens sample_clock (tokenEndpoint sample_catalog) =
     (Some ''tok'', warm_tokens, []) \<and>
   fetchTrack sample_catalog ''seed'' = TrackOk seed_track \<and>
   response (recommendations asciiLowerCase sample_catalog warm_tokens sample_clock random_half
               (Some ''seed'') (Some 0)) = Status200 [] \<and>
   length (requests (recommendations asciiLowerCase sample_catalog warm_tokens sample_clock
               random_half (Some ''seed'') (Some 0))) = 11"
proof -
  have a: "''seed'' \<noteq> []" "(0::int) < 1" by simp_all
  have g: "getSpotifyToken warm_tokens sample_clock (tokenEndpoint sample_catalog) =
     (Some ''tok'', warm_tokens, [])"
    by (simp add: getSpotifyToken_def warm_tokens_def sample_clock_def)
  have f: "fetchTrack sample_catalog ''seed'' = TrackOk seed_track"
    by (simp add: sample_catalog_def sample_fetch_def)
  have n: "length (sequentialTrace (searchStrategies seed_track
      \<lparr> album_name = ''Skies'', release_date = Some ''1999-05-01'' \<rparr>
      (getIntelligentFeatures asciiLowerCase random_half seed_track))) = 10"
    using sample_trace_length [of "getIntelligentFeatures asciiLowerCase random_half seed_track"]
    unfolding findSimilar_with_album [OF sample_album] by (simp add: resultTrace_def)
  have r: "response (recommendations asciiLowerCase sample_catalog warm_tokens sample_clock
               random_half (Some ''seed'') (Some 0)) = Status200 []"
    "requests (recommendations asciiLowerCase sample_catalog warm_tokens sample_clock
               random_half (Some ''seed'') (Some 0)) =
       [] @ TrackRequested ''seed'' # sequentialTrace (searchStrategies seed_track
          \<lparr> album_name = ''Skies'', release_date = Some ''1999-05-01'' \<rparr>
          (getIntelligentFeatures asciiLowerCase random_half seed_track))"
    using small_limit_not_rejected [OF a, of asciiLowerCase sample_catalog warm_tokens
        sample_clock random_half "''tok''" warm_tokens "[]" seed_track
        "\<lparr> album_name = ''Skies'', release_date = Some ''1999-05-01'' \<rparr>"]
      g f sample_album by blast+
  have "length (requests (recommendations asciiLowerCase sample_catalog warm_tokens sample_clock
               random_half (Some ''seed'') (Some 0))) = 11"
    unfolding r(2) using n by simp
  then show ?thesis
    using a g f r(1) by blast
qed


end
